theory Spec2Isabelle
  imports Main
begin

section \<open>Python values and exceptions\<close>

text \<open>
  The connector (\<^verbatim>\<open>src/shared/sqlalchemy_connector.py\<close>) is Python. Exceptions are
  values of \<open>pyerror\<close>; a function that may raise returns \<open>pyerror + 'a\<close>, with
  \<open>Inl\<close> the exception.
\<close>

datatype dberr = UndefinedTable | InvalidObjectName | OtherDbError

datatype pyerror =
    ValueError string
  | TypeError string
  | RuntimeError string
  | OverflowError string
  | KeyError string
  | AttributeError string
  | IndexError string
  | ZeroDivisionError
  | NoSuchTableError string
  | SQLAlchemyError dberr

text \<open>
  \<^verbatim>\<open>decimal.Decimal\<close>: a finite value is a signed coefficient and an exponent
  (\<open>Finite m e\<close> stands for \<open>m * 10 ^ e\<close>); the specials are NaN and the infinities.
\<close>

datatype decimal = Finite int int | DecNaN | DecInfinity bool

text \<open>
  The runtime values \<^verbatim>\<open>wrap_literal\<close> and the coercion of \<^verbatim>\<open>write\<close> distinguish by
  \<^verbatim>\<open>isinstance\<close>. \<open>PyDate y m d\<close> is a \<^verbatim>\<open>datetime.date\<close>, \<open>PyDateTime y m d H M S\<close> a
  \<^verbatim>\<open>datetime.datetime\<close>, \<open>PyTime H M S\<close> a \<^verbatim>\<open>datetime.time\<close>, \<open>PyBytes\<close> a \<^verbatim>\<open>bytes\<close>
  object (its bytes as characters).
\<close>

datatype pyval =
    PyNone
  | PyStr string
  | PyInt int
  | PyBool bool
  | PyBytes string
  | PyDate nat nat nat
  | PyDateTime nat nat nat nat nat nat
  | PyTime nat nat nat
  | PyDecimal decimal

text \<open>
  In Python's standard library \<^verbatim>\<open>class datetime(date)\<close>: every datetime is an
  instance of date. \<^verbatim>\<open>time\<close> is a class of its own.
\<close>

fun isinstance_date :: "pyval \<Rightarrow> bool" where
  "isinstance_date (PyDate _ _ _) = True"
| "isinstance_date (PyDateTime _ _ _ _ _ _) = True"
| "isinstance_date _ = False"

fun isinstance_datetime :: "pyval \<Rightarrow> bool" where
  "isinstance_datetime (PyDateTime _ _ _ _ _ _) = True"
| "isinstance_datetime _ = False"

fun isinstance_time :: "pyval \<Rightarrow> bool" where
  "isinstance_time (PyTime _ _ _) = True"
| "isinstance_time _ = False"

fun isinstance_Decimal :: "pyval \<Rightarrow> bool" where
  "isinstance_Decimal (PyDecimal _) = True"
| "isinstance_Decimal _ = False"

subsection \<open>Text of numbers\<close>

definition digit_char :: "nat \<Rightarrow> char" where
  "digit_char n = ''0123456789'' ! (n mod 10)"

fun str_nat :: "nat \<Rightarrow> string" where
  "str_nat n = (if n < 10 then [digit_char n] else str_nat (n div 10) @ [digit_char n])"

declare str_nat.simps [simp del]

text \<open>\<^verbatim>\<open>str(i)\<close> of a Python int.\<close>

definition str_int :: "int \<Rightarrow> string" where
  "str_int i = (if i < 0 then CHR ''-'' # str_nat (nat (- i)) else str_nat (nat i))"

text \<open>Zero padding to a width, as \<^verbatim>\<open>%m\<close>, \<^verbatim>\<open>%d\<close>, \<^verbatim>\<open>%H\<close>, \<^verbatim>\<open>%M\<close>, \<^verbatim>\<open>%S\<close> pad (width 2).
  \<^verbatim>\<open>%Y\<close> is the year as the C library prints it, which on Linux is without padding
  (\<^verbatim>\<open>date(5, 1, 2).strftime("%Y-%m-%d")\<close> is \<^verbatim>\<open>5-01-02\<close>).\<close>

definition zero_pad :: "nat \<Rightarrow> nat \<Rightarrow> string" where
  "zero_pad w n = replicate (w - length (str_nat n)) CHR ''0'' @ str_nat n"

text \<open>\<^verbatim>\<open>strftime("%Y-%m-%d")\<close>, \<^verbatim>\<open>strftime("%Y-%m-%d %H:%M:%S")\<close> and
  \<^verbatim>\<open>strftime("%H:%M:%S")\<close>. The first is defined on dates and, by inheritance, on
  datetimes.\<close>

definition fmt_ymd :: "nat \<Rightarrow> nat \<Rightarrow> nat \<Rightarrow> string" where
  "fmt_ymd y m d = str_nat y @ ''-'' @ zero_pad 2 m @ ''-'' @ zero_pad 2 d"

definition fmt_hms :: "nat \<Rightarrow> nat \<Rightarrow> nat \<Rightarrow> string" where
  "fmt_hms h mi s = zero_pad 2 h @ '':'' @ zero_pad 2 mi @ '':'' @ zero_pad 2 s"

text \<open>\<^verbatim>\<open>int(Decimal)\<close> truncates towards zero and raises on the specials.\<close>

fun int_of_decimal :: "decimal \<Rightarrow> pyerror + int" where
  "int_of_decimal (Finite m e) =
     (if 0 \<le> e then Inr (m * 10 ^ nat e)
      else Inr (sgn m * (\<bar>m\<bar> div 10 ^ nat (- e))))"
| "int_of_decimal DecNaN = Inl (ValueError ''cannot convert NaN to integer'')"
| "int_of_decimal (DecInfinity _) = Inl (OverflowError ''cannot convert Infinity to integer'')"

section \<open>The literal wrapper\<close>

text \<open>
  \<^verbatim>\<open>wrap_literal(val, type_name=None, backend=None, dialect=None)\<close> with its
  defaults, i.e. wrapping without type information. The function first replaces
  \<open>val\<close> through an \<^verbatim>\<open>if/elif\<close> chain of \<^verbatim>\<open>isinstance\<close> tests, in this order:
  date, datetime, time, timedelta, Decimal, other non-string. \<open>convert_val\<close> is
  that chain; the branches are tried top to bottom as in the source. (\<open>pyval\<close> has no
  timedelta.) The last branch, \<^verbatim>\<open>orig_type(str(val).replace(...))\<close>, gives an int back
  unchanged, turns a bool into \<^verbatim>\<open>bool("True")\<close> or \<^verbatim>\<open>bool("False")\<close>, which are both
  \<^verbatim>\<open>True\<close>, and raises on bytes (\<^verbatim>\<open>bytes(str)\<close> wants an encoding).
\<close>

fun strftime_date :: "pyval \<Rightarrow> string" where
  "strftime_date (PyDate y m d) = fmt_ymd y m d"
| "strftime_date (PyDateTime y m d _ _ _) = fmt_ymd y m d"
| "strftime_date _ = []"

fun strftime_datetime :: "pyval \<Rightarrow> string" where
  "strftime_datetime (PyDateTime y m d h mi s) = fmt_ymd y m d @ '' '' @ fmt_hms h mi s"
| "strftime_datetime _ = []"

fun strftime_time :: "pyval \<Rightarrow> string" where
  "strftime_time (PyTime h mi s) = fmt_hms h mi s"
| "strftime_time _ = []"

fun convert_val :: "pyval \<Rightarrow> pyerror + pyval" where
  "convert_val v =
     (if isinstance_date v then Inr (PyStr (strftime_date v))
      else if isinstance_datetime v then Inr (PyStr (strftime_datetime v))
      else if isinstance_time v then Inr (PyStr (strftime_time v))
      else if isinstance_Decimal v then
        (case v of
           PyDecimal d \<Rightarrow> (case int_of_decimal d of Inl e \<Rightarrow> Inl e | Inr i \<Rightarrow> Inr (PyInt i))
         | _ \<Rightarrow> Inr v)
      else
        (case v of
           PyBool b \<Rightarrow> Inr (PyBool True)
         | PyBytes b \<Rightarrow> Inl (TypeError ''string argument without an encoding'')
         | _ \<Rightarrow> Inr v))"

text \<open>\<^verbatim>\<open>f"{val}"\<close> of the values that reach the end of the function.\<close>

fun format_val :: "pyval \<Rightarrow> string" where
  "format_val PyNone = ''None''"
| "format_val (PyStr s) = s"
| "format_val (PyInt i) = str_int i"
| "format_val (PyBool b) = (if b then ''True'' else ''False'')"
| "format_val _ = []"

definition startswith_quote :: "string \<Rightarrow> bool" where
  "startswith_quote s = (case s of [] \<Rightarrow> False | c # _ \<Rightarrow> c = CHR 0x27)"

definition endswith_quote :: "string \<Rightarrow> bool" where
  "endswith_quote s = (case rev s of [] \<Rightarrow> False | c # _ \<Rightarrow> c = CHR 0x27)"

definition wrap_literal :: "pyval \<Rightarrow> pyerror + string" where
  "wrap_literal val =
     (case convert_val val of
        Inl e \<Rightarrow> Inl e
      | Inr v \<Rightarrow>
          (case v of
             PyStr s \<Rightarrow>
               (if \<not> startswith_quote s \<and> \<not> endswith_quote s
                then Inr ([CHR 0x27] @ s @ [CHR 0x27])
                else Inr s)
           | _ \<Rightarrow> Inr (format_val v)))"

section \<open>Backend, sessions and the connector's state\<close>

text \<open>
  The database is outside the program. Each statement the connector sends is a value
  of \<open>stmt\<close>, named after the SQL text the source builds; the backend is a record of
  what the database answers: which statements it rejects, which rows each table
  holds, what the foreign-key catalog query returns, and what reflection
  (\<^verbatim>\<open>sq.Table(..., autoload_with=engine)\<close>, \<^verbatim>\<open>inspector.get_columns\<close>) finds.
\<close>

type_synonym key = "string list"
type_synonym row = "(string \<times> pyval) list"

datatype SQLDialect = POSTGRES | SNOWFLAKE | REDSHIFT | TSQL | NEO4J | ORACLE | DATABRICKS

datatype WriteMode = APPEND | UPSERT | OVERWRITE | IF_NOT_EXISTS

text \<open>
  The statements, each with the parts of its text that the source fills in:
  \<^item> \<open>SelectTrueLimit1 t\<close>: \<^verbatim>\<open>select true from t limit 1\<close> (\<^verbatim>\<open>table_exists\<close> on
    Postgres, \<^verbatim>\<open>table_has_data\<close>); \<open>SelectTop0 t\<close>: \<^verbatim>\<open>select top 0 * from t\<close>
    (\<^verbatim>\<open>table_exists\<close> on T-SQL);
  \<^item> \<open>FkCatalogQuery skip_builtins pkeys_only\<close>: the catalog query of
    \<^verbatim>\<open>setup_fkey_relationships\<close>;
  \<^item> \<open>DownstreamProbe parent child join lookup literals\<close>:
    \<^verbatim>\<open>select 1 from parent as p inner join child as c on p.k = c.f and ... where
    (p.lookup...) in (literals) limit 1\<close>;
  \<^item> \<open>NullProbe col t\<close>: \<^verbatim>\<open>select 'col' as column_name from t where col is null limit 1\<close>;
  \<^item> \<open>TempSchemasQuery\<close>, \<open>FullTempNameQuery name\<close>: the two queries on \<^verbatim>\<open>pg_tables\<close>;
  \<^item> \<open>DropTableIfExists t\<close>, \<open>DropTable t\<close>;
  \<^item> \<open>CreateTableLike staging t\<close>: the one text
    \<^verbatim>\<open>BEGIN; LOCK TABLE t; CREATE TABLE staging (LIKE t INCLUDING ALL); COMMIT;\<close>;
  \<^item> \<open>CreateTempTableAs name source cols lookup literals\<close>:
    \<^verbatim>\<open>create temporary table name as SELECT cols FROM source WHERE (lookup) in (literals)\<close>;
  \<^item> \<open>DeleteAll t\<close>: \<^verbatim>\<open>DELETE FROM t WHERE 1 = 1\<close>; \<open>SetvalId t\<close>: the sequence reset;
  \<^item> \<open>InsertRows t rows cast conflict\<close>: the bulk insert, with explicit casts if \<open>cast\<close>
    and \<^verbatim>\<open>on_conflict_do_nothing\<close> on the columns \<open>conflict\<close> if given;
  \<^item> \<open>DeleteWhereIn t lookup values\<close>: \<^verbatim>\<open>delete(table).where((lookup) in values)\<close>;
  \<^item> \<open>MergeInto target using on update insert\<close>: the MERGE; each \<open>on\<close> column comes
    with the flag "null-safe" (\<^verbatim>\<open>is not distinct from\<close> instead of \<^verbatim>\<open>=\<close>).
\<close>

datatype stmt =
    SelectTrueLimit1 string
  | SelectTop0 string
  | FkCatalogQuery bool bool
  | DownstreamProbe string string "(string \<times> string) list" key "string list list"
  | NullProbe string string
  | TempSchemasQuery
  | FullTempNameQuery string
  | DropTableIfExists string
  | CreateTableLike string string
  | CreateTempTableAs string string key key "string list list"
  | DeleteAll string
  | SetvalId string
  | InsertRows string "row list" bool "key option"
  | DeleteWhereIn string key "pyval list list"
  | MergeInto string string "(string \<times> bool) list" key key
  | DropTable string

text \<open>Which statements return rows (\<^verbatim>\<open>results.returns_rows\<close>): the SELECTs.\<close>

fun returns_rows :: "stmt \<Rightarrow> bool" where
  "returns_rows (SelectTrueLimit1 _) = True"
| "returns_rows (SelectTop0 _) = True"
| "returns_rows (FkCatalogQuery _ _) = True"
| "returns_rows (DownstreamProbe _ _ _ _ _) = True"
| "returns_rows (NullProbe _ _) = True"
| "returns_rows TempSchemasQuery = True"
| "returns_rows (FullTempNameQuery _) = True"
| "returns_rows _ = False"

text \<open>A session is either one the caller passed in or one the connector opened itself
  with \<^verbatim>\<open>Session(self.engine)\<close>.\<close>

datatype session = Supplied nat | Internal nat

datatype event =
    Execute session stmt
  | Commit session
  | Close session
  | Rollback session

text \<open>One row of the foreign-key catalog query of \<^verbatim>\<open>setup_fkey_relationships\<close>.\<close>

record fk_row =
  parent_table :: string
  parent_keys :: key
  child_table :: string
  child_keys :: key

text \<open>The class of a column's type, \<^verbatim>\<open>type(col.type)\<close>, as far as \<^verbatim>\<open>write\<close> looks at
  it: the keys of \<^verbatim>\<open>_COERCE_METHODS\<close> that a column type can be, or any other class.\<close>

datatype sqltype = JSON | BOOLEAN | BYTEA | UUID | OtherType

text \<open>A reflected column: its name, its \<^verbatim>\<open>identity\<close> attribute (\<open>None\<close> when the
  column has none, \<open>Some always\<close> otherwise) and the class of its type. A constraint
  holds its columns.\<close>

record column =
  col_name :: string
  col_identity :: "bool option"
  col_type :: sqltype

datatype constr =
    UniqueConstraint "column list"
  | PrimaryKeyConstraint "column list"
  | OtherConstraint "column list"

record table_obj =
  tbl_columns :: "column list"
  tbl_constraints :: "constr list"

text \<open>
  What the world outside answers during one operation:
  \<^item> \<open>be_error q\<close>: the error with which the database rejects statement \<open>q\<close>, if it does;
  \<^item> \<open>be_nonempty q\<close>: whether the SELECT \<open>q\<close> returns at least one row;
  \<^item> \<open>be_fkeys skip_builtins pkeys_only\<close>: the rows of the foreign-key catalog query;
  \<^item> \<open>be_table name\<close>: the reflected table, if there is one of that name;
  \<^item> \<open>be_temp_schemas\<close>, \<open>be_full_temp_name\<close>: the answers of the \<^verbatim>\<open>pg_tables\<close> queries;
  \<^item> \<open>be_random i\<close>: the \<open>i\<close>-th draw of Python's \<^verbatim>\<open>random\<close> module;
  \<^item> \<open>be_json_dumps\<close>, \<open>be_str\<close>, \<open>be_encode_utf8\<close>: the library functions
    \<^verbatim>\<open>json.dumps\<close> (on a string), \<^verbatim>\<open>str\<close> and \<^verbatim>\<open>str.encode("utf-8")\<close>;
  \<^item> \<open>be_order_names\<close>, \<open>be_order_tuples\<close>, \<open>be_order_keys\<close>: the order in which Python
    iterates over a \<^verbatim>\<open>set\<close> of column names, of value tuples and of key tuples, given
    the elements in the order they were added. It follows the hashes of the elements.
\<close>

record backend =
  be_error :: "stmt \<Rightarrow> dberr option"
  be_nonempty :: "stmt \<Rightarrow> bool"
  be_fkeys :: "bool \<Rightarrow> bool \<Rightarrow> fk_row list"
  be_table :: "string \<Rightarrow> table_obj option"
  be_temp_schemas :: "string list"
  be_full_temp_name :: "string \<Rightarrow> string option"
  be_random :: "nat \<Rightarrow> nat"
  be_json_dumps :: "string \<Rightarrow> string"
  be_str :: "pyval \<Rightarrow> string"
  be_encode_utf8 :: "string \<Rightarrow> string"
  be_order_names :: "string list \<Rightarrow> string list"
  be_order_tuples :: "pyval list list \<Rightarrow> pyval list list"
  be_order_keys :: "key list \<Rightarrow> key list"

text \<open>Iterating over a set: the environment's order when that is an enumeration of the
  elements without repetition, the order of insertion otherwise.\<close>

definition iter_set :: "('a list \<Rightarrow> 'a list) \<Rightarrow> 'a list \<Rightarrow> 'a list" where
  "iter_set order xs =
     (if set (order xs) = set xs \<and> distinct (order xs) then order xs else remdups xs)"

text \<open>
  The relationship graph \<^verbatim>\<open>self.relationships\<close>:
  parent table \<open>\<rightarrow>\<close> child table \<open>\<rightarrow>\<close> parent key tuple \<open>\<rightarrow>\<close> list of child key tuples.
  Python dicts keep insertion order, so each level is an association list.
\<close>

type_synonym key_rels = "(key \<times> key list) list"
type_synonym child_rels = "(string \<times> key_rels) list"
type_synonym relationships = "(string \<times> child_rels) list"

text \<open>
  The connector's state: its dialect, the cached graph, the events on sessions so far
  (the statements executed, the commits, closes and rollbacks), the number of sessions
  opened and the number of random draws consumed.
\<close>

record connector =
  dialect :: SQLDialect
  relationships :: relationships
  trace :: "event list"
  next_session :: nat
  draws :: nat

type_synonym 'a result = "(pyerror + 'a) \<times> connector"

definition bind_r :: "(connector \<Rightarrow> 'a result) \<Rightarrow> ('a \<Rightarrow> connector \<Rightarrow> 'b result)
    \<Rightarrow> connector \<Rightarrow> 'b result" where
  "bind_r m f c = (case m c of (Inl e, c') \<Rightarrow> (Inl e, c') | (Inr x, c') \<Rightarrow> f x c')"

definition emit :: "event list \<Rightarrow> connector \<Rightarrow> connector" where
  "emit es c = c\<lparr>trace := trace c @ es\<rparr>"

text \<open>\<^verbatim>\<open>Session(self.engine)\<close>: a session of the connector's own.\<close>

definition new_session :: "connector \<Rightarrow> session \<times> connector" where
  "new_session c = (Internal (next_session c), c\<lparr>next_session := Suc (next_session c)\<rparr>)"

subsection \<open>Dictionaries in insertion order\<close>

fun dict_set :: "('k \<times> 'v) list \<Rightarrow> 'k \<Rightarrow> 'v \<Rightarrow> ('k \<times> 'v) list" where
  "dict_set [] k v = [(k, v)]"
| "dict_set ((k', v') # kvs) k v =
     (if k' = k then (k, v) # kvs else (k', v') # dict_set kvs k v)"

definition dict_keys :: "('k \<times> 'v) list \<Rightarrow> 'k list" where
  "dict_keys d = map fst d"

definition dict_get_or :: "('k \<times> 'v) list \<Rightarrow> 'k \<Rightarrow> 'v \<Rightarrow> 'v" where
  "dict_get_or d k dflt = (case map_of d k of None \<Rightarrow> dflt | Some v \<Rightarrow> v)"

text \<open>\<^verbatim>\<open>s.add(x)\<close> on a set kept as a duplicate-free list.\<close>

definition set_add :: "'a list \<Rightarrow> 'a \<Rightarrow> 'a list" where
  "set_add xs x = (if x \<in> set xs then xs else xs @ [x])"

subsection \<open>\<^verbatim>\<open>execute\<close> and \<^verbatim>\<open>read\<close>\<close>

text \<open>
  \<^verbatim>\<open>execute(query, out_mode, session, rollback_stmt)\<close>. With no session it opens its
  own. A statement the backend rejects closes the session (also a caller's) and
  re-raises. A statement without rows commits and closes an own session (or rolls it
  back); one with rows closes an own session after \<^verbatim>\<open>fetchall\<close>. The rows themselves
  are read by the callers from the backend record.
\<close>

definition execute :: "backend \<Rightarrow> stmt \<Rightarrow> session option \<Rightarrow> bool \<Rightarrow> connector \<Rightarrow> unit result" where
  "execute be query sess rollback_stmt c =
     (let is_sub = (sess \<noteq> None);
          (s, c1) = (case sess of None \<Rightarrow> new_session c | Some s' \<Rightarrow> (s', c));
          c2 = emit [Execute s query] c1
      in case be_error be query of
           Some err \<Rightarrow> (Inl (SQLAlchemyError err), emit [Close s] c2)
         | None \<Rightarrow>
             if \<not> returns_rows query then
               (if \<not> is_sub \<and> \<not> rollback_stmt then (Inr (), emit [Commit s, Close s] c2)
                else if \<not> is_sub \<and> rollback_stmt then (Inr (), emit [Rollback s] c2)
                else (Inr (), c2))
             else
               (if \<not> is_sub \<and> \<not> rollback_stmt then (Inr (), emit [Close s] c2)
                else if \<not> is_sub \<and> rollback_stmt then (Inr (), emit [Rollback s] c2)
                else (Inr (), c2)))"

definition read :: "backend \<Rightarrow> stmt \<Rightarrow> session option \<Rightarrow> connector \<Rightarrow> unit result" where
  "read be query sess c = execute be query sess False c"

section \<open>The relationship graph\<close>

text \<open>The loop body of \<^verbatim>\<open>setup_fkey_relationships\<close>: file one catalog row under
  parent, child and parent key, creating the levels that are missing.\<close>

definition add_relationship :: "relationships \<Rightarrow> fk_row \<Rightarrow> relationships" where
  "add_relationship rels r =
     (let by_child = dict_get_or rels (parent_table r) [];
          by_key = dict_get_or by_child (child_table r) [];
          fkeys = dict_get_or by_key (parent_keys r) []
      in dict_set rels (parent_table r)
           (dict_set by_child (child_table r)
              (dict_set by_key (parent_keys r) (set_add fkeys (child_keys r)))))"

text \<open>
  \<^verbatim>\<open>setup_fkey_relationships(skip_builtins, overwrite, pkeys_only)\<close>. The cache test is
  \<^verbatim>\<open>if self.relationships and not overwrite\<close>: a dict is true when it is not empty.
  While the rows are filed, the child keys of one parent key are a set, kept here in
  the order they were added; \<^verbatim>\<open>convert_sets_to_lists\<close> then turns each set into a list,
  in the order Python iterates over it.
\<close>

definition convert_sets_to_lists :: "backend \<Rightarrow> relationships \<Rightarrow> relationships" where
  "convert_sets_to_lists be rels =
     map (\<lambda>(parent, by_child).
            (parent, map (\<lambda>(child, by_key).
                            (child, map (\<lambda>(pk, fks). (pk, iter_set (be_order_keys be) fks)) by_key))
                       by_child))
       rels"

definition setup_fkey_relationships ::
    "backend \<Rightarrow> bool \<Rightarrow> bool \<Rightarrow> bool \<Rightarrow> connector \<Rightarrow> unit result" where
  "setup_fkey_relationships be skip_builtins overwrite pkeys_only c =
     (if relationships c \<noteq> [] \<and> \<not> overwrite then (Inr (), c)
      else
        (let c1 = c\<lparr>relationships := []\<rparr> in
         if dialect c1 = POSTGRES then
           bind_r (read be (FkCatalogQuery skip_builtins pkeys_only) None)
             (\<lambda>_ c2. (Inr (), c2\<lparr>relationships :=
                          convert_sets_to_lists be
                            (foldl add_relationship (relationships c2)
                               (be_fkeys be skip_builtins pkeys_only))\<rparr>))
             c1
         else (Inl (RuntimeError ''Not supported yet for dialect''), c1)))"

text \<open>
  \<^verbatim>\<open>get_foreign_keys(parent_table, child_table=None, pkey)\<close>, the form every caller
  below uses: the children of a parent, each with its relationships (filtered by
  \<open>pkey\<close> when one is given), or \<open>None\<close> when the parent has no entry in the graph.
\<close>

definition get_foreign_keys ::
    "backend \<Rightarrow> string \<Rightarrow> key option \<Rightarrow> connector \<Rightarrow> (child_rels option) result" where
  "get_foreign_keys be parent pkey c =
     bind_r (setup_fkey_relationships be True False False)
       (\<lambda>_ c1. case map_of (relationships c1) parent of
                  None \<Rightarrow> (Inr None, c1)
                | Some rels \<Rightarrow>
                    (Inr (Some (map (\<lambda>(ct, krs). (ct, filter (\<lambda>(pk, fks). Some pk = pkey \<or> pkey = None) krs)) rels)), c1))
       c"

definition has_dependent_tables :: "connector \<Rightarrow> string \<Rightarrow> bool" where
  "has_dependent_tables c parent = (parent \<in> set (dict_keys (relationships c)))"

subsection \<open>\<^verbatim>\<open>tables_are_linked_by\<close>\<close>

text \<open>
  The \<^verbatim>\<open>parent_column\<close> argument is annotated \<^verbatim>\<open>str\<close>, and the keys of
  \<^verbatim>\<open>child_tables[child_table]\<close> are tuples of column names: a string is never equal
  to a tuple, a tuple may be.
\<close>

datatype colarg = StrArg string | TupleArg key

fun col_in_keys :: "colarg \<Rightarrow> key list \<Rightarrow> bool" where
  "col_in_keys (StrArg _) ks = False"
| "col_in_keys (TupleArg k) ks = (k \<in> set ks)"

text \<open>
  The result of a call: the exception or the returned value (\<open>None\<close> is Python's
  \<^verbatim>\<open>None\<close>, returned when the function body ends without a \<^verbatim>\<open>return\<close>), the
  \<^verbatim>\<open>checked\<close> set, which the callee mutates, and the connector.
\<close>

type_synonym linked_result = "(pyerror + bool option) \<times> string list \<times> connector"

text \<open>The inner loop \<^verbatim>\<open>for fkey in fkeys\<close>: one recursive call per relationship of the
  sub-child, the first true answer returns. \<open>Inr True\<close>: the function returned
  \<^verbatim>\<open>True\<close>; \<open>Inr False\<close>: the loop ran to its end.\<close>

fun linked_fkeys_loop ::
    "(string \<Rightarrow> string list \<Rightarrow> connector \<Rightarrow> linked_result option) \<Rightarrow> string \<Rightarrow> 'a list
     \<Rightarrow> string list \<Rightarrow> connector \<Rightarrow> ((pyerror + bool) \<times> string list \<times> connector) option" where
  "linked_fkeys_loop call sub [] checked c = Some (Inr False, checked, c)"
| "linked_fkeys_loop call sub (fk # fks) checked c =
     (case call sub checked c of
        None \<Rightarrow> None
      | Some (Inl e, checked', c') \<Rightarrow> Some (Inl e, checked', c')
      | Some (Inr r, checked', c') \<Rightarrow>
          if r = Some True then Some (Inr True, checked', c')
          else linked_fkeys_loop call sub fks checked' c')"

text \<open>The outer loop \<^verbatim>\<open>for sub_child, fkeys in child_tables.items()\<close>, skipping the
  children already in \<^verbatim>\<open>checked\<close>.\<close>

fun linked_children_loop ::
    "(string \<Rightarrow> string list \<Rightarrow> connector \<Rightarrow> linked_result option) \<Rightarrow> child_rels
     \<Rightarrow> string list \<Rightarrow> connector \<Rightarrow> ((pyerror + bool) \<times> string list \<times> connector) option" where
  "linked_children_loop call [] checked c = Some (Inr False, checked, c)"
| "linked_children_loop call ((sub, fkeys) # rest) checked c =
     (if sub \<in> set checked then linked_children_loop call rest checked c
      else case linked_fkeys_loop call sub fkeys checked c of
             None \<Rightarrow> None
           | Some (Inl e, checked', c') \<Rightarrow> Some (Inl e, checked', c')
           | Some (Inr True, checked', c') \<Rightarrow> Some (Inr True, checked', c')
           | Some (Inr False, checked', c') \<Rightarrow> linked_children_loop call rest checked' c')"

text \<open>
  \<^verbatim>\<open>tables_are_linked_by(parent_table, child_table, parent_column, checked)\<close>. The
  recursion is bounded by fuel (the first argument); \<open>None\<close> is "out of fuel".
  \<^verbatim>\<open>child_table not in child_tables\<close> raises \<^verbatim>\<open>TypeError\<close> when
  \<^verbatim>\<open>get_foreign_keys\<close> returned \<^verbatim>\<open>None\<close>. The recursive call keeps \<open>parent_table\<close>
  and moves to the sub-child.
\<close>

fun tables_are_linked_by ::
    "nat \<Rightarrow> backend \<Rightarrow> string \<Rightarrow> string \<Rightarrow> colarg \<Rightarrow> string list \<Rightarrow> connector
     \<Rightarrow> linked_result option" where
  "tables_are_linked_by 0 be parent child parent_column checked c = None"
| "tables_are_linked_by (Suc n) be parent child parent_column checked c =
     (case get_foreign_keys be parent None c of
        (Inl e, c1) \<Rightarrow> Some (Inl e, checked, c1)
      | (Inr None, c1) \<Rightarrow>
          Some (Inl (TypeError ''argument of type NoneType is not iterable''), checked, c1)
      | (Inr (Some child_tables), c1) \<Rightarrow>
          if child \<notin> set (dict_keys child_tables) then Some (Inr (Some False), checked, c1)
          else if col_in_keys parent_column (dict_keys (dict_get_or child_tables child []))
          then Some (Inr (Some True), checked, c1)
          else
            (case linked_children_loop
                    (\<lambda>sub k c'. tables_are_linked_by n be parent sub parent_column k c')
                    child_tables (set_add checked child) c1 of
               None \<Rightarrow> None
             | Some (Inl e, k, c2) \<Rightarrow> Some (Inl e, k, c2)
             | Some (Inr True, k, c2) \<Rightarrow> Some (Inr (Some True), k, c2)
             | Some (Inr False, k, c2) \<Rightarrow> Some (Inr None, k, c2)))"

section \<open>Strings and names\<close>

definition lower_char :: "char \<Rightarrow> char" where
  "lower_char ch = (let n = (of_char ch :: nat) in if 65 \<le> n \<and> n \<le> 90 then char_of (n + 32) else ch)"

definition upper_char :: "char \<Rightarrow> char" where
  "upper_char ch = (let n = (of_char ch :: nat) in if 97 \<le> n \<and> n \<le> 122 then char_of (n - 32) else ch)"

definition lower :: "string \<Rightarrow> string" where
  "lower s = map lower_char s"

definition upper :: "string \<Rightarrow> string" where
  "upper s = map upper_char s"

definition count_dots :: "string \<Rightarrow> nat" where
  "count_dots s = length (filter (\<lambda>ch. ch = CHR ''.'') s)"

text \<open>\<^verbatim>\<open>s.split(".")\<close>: never empty, one more part than there are dots.\<close>

fun split_dot :: "string \<Rightarrow> string list" where
  "split_dot [] = [[]]"
| "split_dot (ch # cs) =
     (if ch = CHR ''.'' then [] # split_dot cs
      else (case split_dot cs of [] \<Rightarrow> [[ch]] | x # xs \<Rightarrow> (ch # x) # xs))"

text \<open>\<^verbatim>\<open>WriteMode.__members__\<close>, by name.\<close>

definition WriteMode_members :: "(string \<times> WriteMode) list" where
  "WriteMode_members =
     [(''APPEND'', APPEND), (''UPSERT'', UPSERT), (''OVERWRITE'', OVERWRITE),
      (''IF_NOT_EXISTS'', IF_NOT_EXISTS)]"

text \<open>\<^verbatim>\<open>format_table_for_metadata\<close>: with two dots the first part is dropped, with one the
  name is kept, both lower-cased; otherwise the function returns \<^verbatim>\<open>None\<close>.\<close>

definition format_table_for_metadata :: "string \<Rightarrow> string option" where
  "format_table_for_metadata table_name =
     (if count_dots table_name = 2 then
        (case split_dot table_name of
           [_, b, c] \<Rightarrow> Some (lower (b @ ''.'' @ c))
         | _ \<Rightarrow> None)
      else if count_dots table_name = 1 then Some (lower table_name)
      else None)"

text \<open>\<^verbatim>\<open>get_object_schema\<close>.\<close>

definition get_object_schema :: "string \<Rightarrow> string option" where
  "get_object_schema obj_name =
     (if count_dots obj_name = 2 then
        (case split_dot obj_name of [_, b, _] \<Rightarrow> Some b | _ \<Rightarrow> None)
      else if count_dots obj_name = 1 then
        (case split_dot obj_name of [a, _] \<Rightarrow> Some a | _ \<Rightarrow> None)
      else None)"

section \<open>Reflection: tables, columns, constraints\<close>

text \<open>\<^verbatim>\<open>get_table_obj\<close>: \<^verbatim>\<open>sq.Table(table_name, metadata, autoload_with=engine)\<close>, which
  raises when there is no such table (after one retry with a fresh reflection).\<close>

definition get_table_obj :: "backend \<Rightarrow> string \<Rightarrow> pyerror + table_obj" where
  "get_table_obj be table_name =
     (case be_table be table_name of
        None \<Rightarrow> Inl (NoSuchTableError table_name)
      | Some t \<Rightarrow> Inr t)"

definition identity_always :: "column \<Rightarrow> bool" where
  "identity_always col = (col_identity col = Some True)"

text \<open>\<^verbatim>\<open>get_id_columns\<close>: the columns that have an identity, always or by default.\<close>

definition get_id_columns :: "backend \<Rightarrow> string \<Rightarrow> pyerror + string list" where
  "get_id_columns be table_name =
     (case get_table_obj be table_name of
        Inl e \<Rightarrow> Inl e
      | Inr t \<Rightarrow> Inr (map col_name (filter (\<lambda>col. col_identity col \<noteq> None) (tbl_columns t))))"

text \<open>\<^verbatim>\<open>get_column_schema(table, names_only=True)\<close>: the lower-cased column names.
  \<^verbatim>\<open>schema, table_name = table.lower().split(".")\<close> raises unless there is exactly one
  dot.\<close>

definition get_column_schema :: "backend \<Rightarrow> string \<Rightarrow> pyerror + string list" where
  "get_column_schema be table_name =
     (if count_dots table_name \<noteq> 1 then Inl (ValueError ''not enough or too many values to unpack'')
      else case be_table be (lower table_name) of
             None \<Rightarrow> Inl (NoSuchTableError (lower table_name))
           | Some t \<Rightarrow> Inr (map (\<lambda>col. lower (col_name col)) (tbl_columns t)))"

text \<open>\<^verbatim>\<open>get_table_columns(table_name, cols_only=False, incl_identity)\<close>: without
  \<open>incl_identity\<close> the always-identity columns are left out.\<close>

definition get_table_columns :: "backend \<Rightarrow> string \<Rightarrow> bool \<Rightarrow> pyerror + column list" where
  "get_table_columns be table_name incl_identity =
     (if 2 \<le> count_dots table_name then Inl (ValueError ''too many values to unpack'')
      else case be_table be table_name of
             None \<Rightarrow> Inl (NoSuchTableError table_name)
           | Some t \<Rightarrow>
               Inr (if \<not> incl_identity then filter (\<lambda>col. \<not> identity_always col) (tbl_columns t)
                    else tbl_columns t))"

text \<open>The column names of the unique and of the primary-key constraints of a table, in
  the order of \<^verbatim>\<open>table.constraints\<close>.\<close>

fun unique_constraint_columns :: "constr \<Rightarrow> column list option" where
  "unique_constraint_columns (UniqueConstraint cols) = Some cols"
| "unique_constraint_columns _ = None"

fun primary_key_columns :: "constr \<Rightarrow> column list option" where
  "primary_key_columns (PrimaryKeyConstraint cols) = Some cols"
| "primary_key_columns _ = None"

fun unique_or_primary_columns :: "constr \<Rightarrow> column list option" where
  "unique_or_primary_columns (UniqueConstraint cols) = Some cols"
| "unique_or_primary_columns (PrimaryKeyConstraint cols) = Some cols"
| "unique_or_primary_columns _ = None"

text \<open>\<^verbatim>\<open>is_unique_constraint(table_name, cols)\<close>: every column of \<open>cols\<close> occurs in some
  unique or primary-key constraint.\<close>

definition is_unique_constraint :: "backend \<Rightarrow> string \<Rightarrow> key \<Rightarrow> pyerror + bool" where
  "is_unique_constraint be table_name cols =
     (case get_table_obj be table_name of
        Inl e \<Rightarrow> Inl e
      | Inr t \<Rightarrow>
          (let unique_cols = concat (map (map col_name) (List.map_filter unique_or_primary_columns (tbl_constraints t)))
           in Inr (list_all (\<lambda>cn. cn \<in> set unique_cols) cols)))"

text \<open>\<^verbatim>\<open>random.choice\<close> and \<^verbatim>\<open>random.randint\<close> consume one draw each.\<close>

definition random_choice :: "backend \<Rightarrow> 'a list \<Rightarrow> connector \<Rightarrow> 'a result" where
  "random_choice be xs c =
     (case xs of
        [] \<Rightarrow> (Inl (IndexError ''Cannot choose from an empty sequence''), c)
      | _ \<Rightarrow> (Inr (xs ! (be_random be (draws c) mod length xs)), c\<lparr>draws := Suc (draws c)\<rparr>))"

definition random_randint :: "backend \<Rightarrow> nat \<Rightarrow> nat \<Rightarrow> connector \<Rightarrow> nat result" where
  "random_randint be a b c =
     (Inr (a + be_random be (draws c) mod (b - a + 1)), c\<lparr>draws := Suc (draws c)\<rparr>)"

text \<open>
  \<^verbatim>\<open>get_merge_columns(table_name, data, ignore_identity, incl_types=False)\<close>.
  The unique constraints are collected, those with an always-identity column dropped
  when \<open>ignore_identity\<close>, and, when \<open>data\<close> is given and not empty, those with a column
  missing from the first record. The primary key is returned first if it has columns
  and none is always-identity. Otherwise the unique constraints are grouped by width,
  \<^verbatim>\<open>max\<close> takes the largest width (it raises on no constraint at all), the constraints
  of that width without identity column remain, and \<^verbatim>\<open>random.choice\<close> picks one; with
  none left the empty list is returned.
\<close>

definition get_merge_columns ::
    "backend \<Rightarrow> string \<Rightarrow> row list option \<Rightarrow> bool \<Rightarrow> connector \<Rightarrow> key result" where
  "get_merge_columns be table_name data ignore_identity c =
     (case get_table_obj be table_name of
        Inl e \<Rightarrow> (Inl e, c)
      | Inr t \<Rightarrow>
          (let unique_const0 = List.map_filter unique_constraint_columns (tbl_constraints t);
               unique_const1 = (if ignore_identity
                                then filter (\<lambda>cols. \<not> list_ex identity_always cols) unique_const0
                                else unique_const0);
               unique_const2 = map (map col_name) unique_const1;
               unique_const = (case data of
                                 Some (r0 # _) \<Rightarrow>
                                   filter (\<lambda>const. list_all (\<lambda>cn. cn \<in> set (dict_keys r0)) const) unique_const2
                               | _ \<Rightarrow> unique_const2);
               pkey_const = (case List.map_filter primary_key_columns (tbl_constraints t) of
                               [] \<Rightarrow> [] | cols # _ \<Rightarrow> cols)
           in if pkey_const \<noteq> [] \<and> \<not> list_ex identity_always pkey_const
              then (Inr (map col_name pkey_const), c)
              else if unique_const = [] then (Inl (ValueError ''max() arg is an empty sequence''), c)
              else
                (let max_cols = Max (set (map length unique_const));
                     id_columns = map col_name (filter (\<lambda>col. col_identity col \<noteq> None) (tbl_columns t));
                     unique_cols = filter (\<lambda>const. length const = max_cols
                                              \<and> \<not> list_ex (\<lambda>cn. cn \<in> set id_columns) const) unique_const
                 in if unique_cols \<noteq> [] then random_choice be unique_cols c else (Inr [], c))))"

text \<open>
  \<^verbatim>\<open>get_unique_constraint_columns(table_name, ignore_identity=True,
  all_constraints=False)\<close>, used by the IF\_NOT\_EXISTS insert: the narrowest unique or
  primary-key constraint without identity column.
\<close>

definition get_unique_constraint_columns :: "backend \<Rightarrow> string \<Rightarrow> connector \<Rightarrow> key result" where
  "get_unique_constraint_columns be table_name c =
     (case get_table_obj be table_name of
        Inl e \<Rightarrow> (Inl e, c)
      | Inr t \<Rightarrow>
          (case get_column_schema be table_name of
             Inl e \<Rightarrow> (Inl e, c)
           | Inr _ \<Rightarrow>
               (let consts = List.map_filter unique_or_primary_columns (tbl_constraints t);
                    kept = filter (\<lambda>cols. \<not> list_ex (\<lambda>col. col_identity col \<noteq> None) cols \<and> cols \<noteq> []) consts;
                    unique_const = map (map col_name) kept
                in case unique_const of
                     [] \<Rightarrow> (Inl (ValueError ''min() arg is an empty sequence''), c)
                   | [only] \<Rightarrow> (Inr only, c)
                   | _ \<Rightarrow>
                       (let narrowest_width = Min (set (map length unique_const));
                            narrowest = filter (\<lambda>cols. length cols = narrowest_width) unique_const
                        in if 1 < length narrowest then random_choice be narrowest c
                           else (case narrowest of [] \<Rightarrow> (Inl (IndexError ''list index out of range''), c)
                                 | x # _ \<Rightarrow> (Inr x, c))))))"

section \<open>Statements on a session\<close>

text \<open>\<^verbatim>\<open>session.execute(stmt)\<close> called directly: an error propagates, the session stays
  open.\<close>

definition session_execute :: "backend \<Rightarrow> session \<Rightarrow> stmt \<Rightarrow> connector \<Rightarrow> unit result" where
  "session_execute be s query c =
     (case be_error be query of
        Some err \<Rightarrow> (Inl (SQLAlchemyError err), emit [Execute s query] c)
      | None \<Rightarrow> (Inr (), emit [Execute s query] c))"

text \<open>\<^verbatim>\<open>__finalize_transaction(session, is_sub, do_commit)\<close>.\<close>

definition finalize_transaction :: "session \<Rightarrow> bool \<Rightarrow> bool \<Rightarrow> connector \<Rightarrow> unit result" where
  "finalize_transaction s is_sub do_commit c =
     (if do_commit \<and> \<not> is_sub then (Inr (), emit [Commit s, Close s] c)
      else if do_commit then (Inr (), emit [Commit s] c)
      else if \<not> is_sub then (Inr (), emit [Commit s, Close s] c)
      else (Inr (), c))"

text \<open>\<^verbatim>\<open>table_exists\<close>: a probe; "undefined table" answers mean no, any other error is
  re-raised. Dialects other than T-SQL and Postgres raise.\<close>

definition table_exists :: "backend \<Rightarrow> string \<Rightarrow> session option \<Rightarrow> connector \<Rightarrow> bool result" where
  "table_exists be table_name sess c =
     (if dialect c \<noteq> TSQL \<and> dialect c \<noteq> POSTGRES then (Inl (RuntimeError ''Not supported for dialect''), c)
      else
        (case read be (if dialect c = TSQL then SelectTop0 table_name else SelectTrueLimit1 table_name) sess c of
           (Inr _, c1) \<Rightarrow> (Inr True, c1)
         | (Inl (SQLAlchemyError err), c1) \<Rightarrow>
             if err = UndefinedTable \<or> err = InvalidObjectName then (Inr False, c1)
             else (Inl (SQLAlchemyError err), c1)
         | (Inl e, c1) \<Rightarrow> (Inl e, c1)))"

definition table_has_data :: "backend \<Rightarrow> string \<Rightarrow> connector \<Rightarrow> bool result" where
  "table_has_data be table_name c =
     bind_r (read be (SelectTrueLimit1 table_name) None)
       (\<lambda>_ c1. (Inr (be_nonempty be (SelectTrueLimit1 table_name)), c1)) c"

definition drop_table :: "backend \<Rightarrow> string \<Rightarrow> connector \<Rightarrow> unit result" where
  "drop_table be table_name c = execute be (DropTable table_name) None False c"

section \<open>Temporary tables\<close>

definition get_temp_schemas :: "backend \<Rightarrow> session option \<Rightarrow> connector \<Rightarrow> (string list) result" where
  "get_temp_schemas be sess c =
     bind_r (read be TempSchemasQuery sess) (\<lambda>_ c1. (Inr (be_temp_schemas be), c1)) c"

text \<open>The retry loop of \<^verbatim>\<open>get_random_temp_table_name\<close>; \<open>left\<close> is \<open>20 - retry_ct\<close>. The
  loop condition calls \<^verbatim>\<open>table_exists\<close> before it looks at the counter.\<close>

fun temp_name_loop ::
    "backend \<Rightarrow> string \<Rightarrow> session option \<Rightarrow> bool \<Rightarrow> nat \<Rightarrow> string \<Rightarrow> connector \<Rightarrow> (string \<times> nat) result" where
  "temp_name_loop be base sess must_not_exist left tmp c =
     (if must_not_exist then (Inr (tmp, left), c)
      else case table_exists be tmp sess c of
             (Inl e, c1) \<Rightarrow> (Inl e, c1)
           | (Inr ex, c1) \<Rightarrow>
               (case left of
                  0 \<Rightarrow> (Inr (tmp, left), c1)
                | Suc k \<Rightarrow>
                    if \<not> ex then (Inr (tmp, left), c1)
                    else (case random_randint be 1 1000 c1 of
                            (Inl e, c2) \<Rightarrow> (Inl e, c2)
                          | (Inr r, c2) \<Rightarrow> temp_name_loop be base sess must_not_exist k (base @ str_nat r) c2)))"

definition get_random_temp_table_name ::
    "backend \<Rightarrow> string option \<Rightarrow> session option \<Rightarrow> bool \<Rightarrow> connector \<Rightarrow> string result" where
  "get_random_temp_table_name be base_name sess must_not_exist c =
     bind_r (get_temp_schemas be sess)
       (\<lambda>schemas.
          bind_r (if schemas \<noteq> [] \<and> (base_name = None \<or> base_name = Some [])
                  then bind_r (random_choice be schemas) (\<lambda>sc c'. (Inr (sc @ ''.''), c'))
                  else (\<lambda>c'. case base_name of
                                None \<Rightarrow> (Inl (TypeError ''argument of type NoneType is not iterable''), c')
                              | Some b \<Rightarrow> (Inr b, c')))
            (\<lambda>base0.
               bind_r (if CHR ''.'' \<in> set base0
                          \<and> (case get_object_schema base0 of None \<Rightarrow> True | Some sc \<Rightarrow> sc \<notin> set schemas)
                       then (if schemas = [] then (\<lambda>c'. (Inr (last (split_dot base0)), c'))
                             else bind_r (random_choice be schemas)
                                    (\<lambda>sc c'. (Inr (sc @ ''.'' @ last (split_dot base0)), c')))
                       else (\<lambda>c'. (Inr base0, c')))
                 (\<lambda>base.
                    bind_r (random_randint be 1 1000)
                      (\<lambda>r. bind_r (temp_name_loop be base sess must_not_exist 20 (base @ str_nat r))
                              (\<lambda>(tmp, left) c'.
                                 if left = 0
                                 then (Inl (RuntimeError ''Could not genereate temp table name''), c')
                                 else (Inr tmp, c'))))))
       c"

definition get_full_temp_table_name ::
    "backend \<Rightarrow> string \<Rightarrow> session option \<Rightarrow> connector \<Rightarrow> (string option) result" where
  "get_full_temp_table_name be tmp sess c =
     bind_r (read be (FullTempNameQuery (lower tmp)) sess)
       (\<lambda>_ c1. (Inr (be_full_temp_name be (lower tmp)), c1)) c"

text \<open>
  \<^verbatim>\<open>create_temp_table(source_query, tmp_table_name, session)\<close>, where the source query
  is \<^verbatim>\<open>SELECT cols FROM source WHERE (lookup) in (literals)\<close>. The result is the
  qualified name that \<^verbatim>\<open>pg_tables\<close> gives, or \<^verbatim>\<open>None\<close>.
\<close>

definition create_temp_table ::
    "backend \<Rightarrow> string \<Rightarrow> key \<Rightarrow> key \<Rightarrow> string list list \<Rightarrow> string \<Rightarrow> session option
     \<Rightarrow> connector \<Rightarrow> (string option) result" where
  "create_temp_table be source cols lookup literals tmp_table_name sess c =
     bind_r (if tmp_table_name = [] then get_random_temp_table_name be None sess True
             else (\<lambda>c'. (Inr tmp_table_name, c')))
       (\<lambda>tmp0.
          bind_r (\<lambda>c'. if CHR ''.'' \<in> set tmp0
                       then (case split_dot tmp0 of
                               [_, b] \<Rightarrow> (Inr b, c')
                             | _ \<Rightarrow> (Inl (ValueError ''too many values to unpack''), c'))
                       else (Inr tmp0, c'))
            (\<lambda>tmp. bind_r (execute be (CreateTempTableAs tmp source cols lookup literals) sess False)
                      (\<lambda>_. if CHR ''.'' \<notin> set tmp then get_full_temp_table_name be tmp sess
                            else (\<lambda>c'. (Inr (Some tmp), c')))))
       c"

text \<open>\<^verbatim>\<open>get_columns_with_null_records(table_name, session)\<close>: one probe per column.\<close>

fun null_records_loop ::
    "backend \<Rightarrow> string \<Rightarrow> session option \<Rightarrow> string list \<Rightarrow> connector \<Rightarrow> (string list) result" where
  "null_records_loop be table_name sess [] c = (Inr [], c)"
| "null_records_loop be table_name sess (col # cols) c =
     (case read be (NullProbe col table_name) sess c of
        (Inl e, c1) \<Rightarrow> (Inl e, c1)
      | (Inr _, c1) \<Rightarrow>
          (case null_records_loop be table_name sess cols c1 of
             (Inl e, c2) \<Rightarrow> (Inl e, c2)
           | (Inr found, c2) \<Rightarrow>
               (Inr (if be_nonempty be (NullProbe col table_name) then col # found else found), c2)))"

definition get_columns_with_null_records ::
    "backend \<Rightarrow> string option \<Rightarrow> session option \<Rightarrow> connector \<Rightarrow> (string list) result" where
  "get_columns_with_null_records be table_name sess c =
     (case table_name of
        None \<Rightarrow> (Inl (AttributeError ''NoneType object has no attribute lower''), c)
      | Some t \<Rightarrow>
          (case get_column_schema be t of
             Inl e \<Rightarrow> (Inl e, c)
           | Inr cols \<Rightarrow> null_records_loop be t sess cols c))"

section \<open>The upsert decision\<close>

text \<open>The literals of one lookup tuple, \<^verbatim>\<open>[self.wrap_literal(v) for v in f_col_val]\<close>, and
  of all of them; the first value that cannot be wrapped raises.\<close>

fun wrap_literals :: "pyval list \<Rightarrow> pyerror + string list" where
  "wrap_literals [] = Inr []"
| "wrap_literals (v # vs) =
     (case wrap_literal v of
        Inl e \<Rightarrow> Inl e
      | Inr l \<Rightarrow> (case wrap_literals vs of Inl e \<Rightarrow> Inl e | Inr ls \<Rightarrow> Inr (l # ls)))"

fun wrap_lookup_values :: "pyval list list \<Rightarrow> pyerror + string list list" where
  "wrap_lookup_values [] = Inr []"
| "wrap_lookup_values (t # ts) =
     (case wrap_literals t of
        Inl e \<Rightarrow> Inl e
      | Inr l \<Rightarrow> (case wrap_lookup_values ts of Inl e \<Rightarrow> Inl e | Inr ls \<Rightarrow> Inr (l # ls)))"

text \<open>\<^verbatim>\<open>{"p." + p_col: "c." + f_col for p_col, f_col in zip(pkey, fkey)}\<close>.\<close>

definition key_map :: "key \<Rightarrow> key \<Rightarrow> (string \<times> string) list" where
  "key_map pkey fkey = foldl (\<lambda>d (p, f). dict_set d p f) [] (zip pkey fkey)"

definition overlaps :: "key \<Rightarrow> key \<Rightarrow> bool" where
  "overlaps k lookup = list_ex (\<lambda>cn. cn \<in> set lookup) k"

text \<open>The loops of \<^verbatim>\<open>__downstream_data_exists_for_cols\<close>, innermost first: over the
  child keys of one parent key, over the candidate parent keys of one child, over the
  children. The first probe that returns a row returns \<^verbatim>\<open>True\<close>.\<close>

fun probe_fkeys_loop ::
    "backend \<Rightarrow> string \<Rightarrow> string \<Rightarrow> key \<Rightarrow> key \<Rightarrow> string list list \<Rightarrow> key list \<Rightarrow> connector \<Rightarrow> bool result" where
  "probe_fkeys_loop be table_name child pkey lookup literals [] c = (Inr False, c)"
| "probe_fkeys_loop be table_name child pkey lookup literals (fkey # fkeys) c =
     (case read be (DownstreamProbe table_name child (key_map pkey fkey) lookup literals) None c of
        (Inl e, c1) \<Rightarrow> (Inl e, c1)
      | (Inr _, c1) \<Rightarrow>
          if be_nonempty be (DownstreamProbe table_name child (key_map pkey fkey) lookup literals)
          then (Inr True, c1)
          else probe_fkeys_loop be table_name child pkey lookup literals fkeys c1)"

fun probe_candidates_loop ::
    "backend \<Rightarrow> string \<Rightarrow> string \<Rightarrow> key \<Rightarrow> string list list \<Rightarrow> key_rels \<Rightarrow> connector \<Rightarrow> bool result" where
  "probe_candidates_loop be table_name child lookup literals [] c = (Inr False, c)"
| "probe_candidates_loop be table_name child lookup literals ((pkey, fkeys) # rest) c =
     (case probe_fkeys_loop be table_name child pkey lookup literals fkeys c of
        (Inl e, c1) \<Rightarrow> (Inl e, c1)
      | (Inr True, c1) \<Rightarrow> (Inr True, c1)
      | (Inr False, c1) \<Rightarrow> probe_candidates_loop be table_name child lookup literals rest c1)"

fun probe_children_loop ::
    "backend \<Rightarrow> string \<Rightarrow> key \<Rightarrow> string list list \<Rightarrow> child_rels \<Rightarrow> connector \<Rightarrow> bool result" where
  "probe_children_loop be table_name lookup literals [] c = (Inr False, c)"
| "probe_children_loop be table_name lookup literals ((child, rels) # rest) c =
     (case table_has_data be child c of
        (Inl e, c1) \<Rightarrow> (Inl e, c1)
      | (Inr has_data, c1) \<Rightarrow>
          if \<not> has_data then probe_children_loop be table_name lookup literals rest c1
          else if \<not> list_ex (\<lambda>pk. overlaps pk lookup) (dict_keys rels)
          then probe_children_loop be table_name lookup literals rest c1
          else
            (case probe_candidates_loop be table_name child lookup literals
                    (filter (\<lambda>(pk, fks). overlaps pk lookup) rels) c1 of
               (Inl e, c2) \<Rightarrow> (Inl e, c2)
             | (Inr True, c2) \<Rightarrow> (Inr True, c2)
             | (Inr False, c2) \<Rightarrow> probe_children_loop be table_name lookup literals rest c2))"

text \<open>
  \<^verbatim>\<open>__downstream_data_exists_for_cols(table_name, {lookup: values})\<close>: is there a child
  table with rows that reference a parent row whose lookup columns carry one of the
  incoming values, through a relationship whose parent key overlaps the lookup?
\<close>

definition downstream_data_exists_for_cols ::
    "backend \<Rightarrow> string \<Rightarrow> key \<Rightarrow> pyval list list \<Rightarrow> connector \<Rightarrow> bool result" where
  "downstream_data_exists_for_cols be table_name lookup vals c =
     (case get_foreign_keys be table_name None c of
        (Inl e, c1) \<Rightarrow> (Inl e, c1)
      | (Inr None, c1) \<Rightarrow> (Inr False, c1)
      | (Inr (Some []), c1) \<Rightarrow> (Inr False, c1)
      | (Inr (Some child_tables), c1) \<Rightarrow>
          (case wrap_lookup_values vals of
             Inl e \<Rightarrow> (Inl e, c1)
           | Inr literals \<Rightarrow> probe_children_loop be table_name lookup literals child_tables c1))"

section \<open>Merging\<close>

text \<open>
  \<^verbatim>\<open>merge_tables(source, target, merge_cols, filter_values, session, do_commit)\<close>.
  With filter values the source is first narrowed into a temporary table. Empty merge
  columns raise, after that step. Each merge column is matched null-safely when either
  side has a row where it is null. The MERGE updates, on a match, the writable columns
  outside the merge columns, and inserts all writable columns otherwise.
\<close>

definition merge_tables ::
    "backend \<Rightarrow> string \<Rightarrow> string \<Rightarrow> key option \<Rightarrow> (key \<times> pyval list list) option
     \<Rightarrow> session option \<Rightarrow> bool \<Rightarrow> connector \<Rightarrow> unit result" where
  "merge_tables be source target merge_cols filter_values session do_commit c =
     (let is_sub = (session \<noteq> None);
          (sess, c0) = (case session of None \<Rightarrow> new_session c | Some s \<Rightarrow> (s, c))
      in case get_table_columns be target False of
           Inl e \<Rightarrow> (Inl e, c0)
         | Inr columns \<Rightarrow>
             (let col_names = map col_name columns in
              bind_r (case merge_cols of
                        None \<Rightarrow>
                          bind_r (get_merge_columns be target None True)
                            (\<lambda>mc c'. if mc = []
                                      then (Inl (ValueError ''No unique columns or merge columns specified''), c')
                                      else (Inr mc, c'))
                      | Some mc \<Rightarrow> (\<lambda>c'. (Inr mc, c')))
                (\<lambda>mc.
                   bind_r (case filter_values of
                             None \<Rightarrow> (\<lambda>c'. (Inr (Some source), c'))
                           | Some (lookup, vals) \<Rightarrow>
                               (case wrap_lookup_values vals of
                                  Inl e \<Rightarrow> (\<lambda>c'. (Inl e, c'))
                                | Inr literals \<Rightarrow>
                                    bind_r (get_random_temp_table_name be (Some (target @ ''_source_'')) None False)
                                      (\<lambda>tmp. create_temp_table be source col_names lookup literals tmp (Some sess))))
                     (\<lambda>using.
                        if mc = []
                        then (\<lambda>c'. (Inl (ValueError ''Could not determine columns to perform merge with.''), c'))
                        else
                          bind_r (get_columns_with_null_records be using (Some sess))
                            (\<lambda>source_nulls.
                               bind_r (get_columns_with_null_records be (Some target) (Some sess))
                                 (\<lambda>target_nulls.
                                    bind_r (session_execute be sess
                                              (MergeInto target (case using of None \<Rightarrow> ''None'' | Some u \<Rightarrow> u)
                                                 (map (\<lambda>cn. (cn, cn \<in> set source_nulls \<or> cn \<in> set target_nulls)) mc)
                                                 (filter (\<lambda>cn. cn \<notin> set mc) col_names)
                                                 col_names))
                                      (\<lambda>_. finalize_transaction sess is_sub do_commit)))))
                c0))"

section \<open>Writing\<close>

text \<open>The \<^verbatim>\<open>mode\<close> argument of \<^verbatim>\<open>write\<close> is a \<^verbatim>\<open>WriteMode\<close> or the name of one in any
  case; a string that names none raises at once.\<close>

datatype mode_arg = ModeStr string | ModeEnum WriteMode

definition resolve_mode :: "mode_arg \<Rightarrow> pyerror + WriteMode" where
  "resolve_mode mode =
     (case mode of
        ModeEnum m \<Rightarrow> Inr m
      | ModeStr s \<Rightarrow>
          (case map_of WriteMode_members (upper s) of
             Some m \<Rightarrow> Inr m
           | None \<Rightarrow> Inl (ValueError ''mode string not a valid WriteMode.'')))"

text \<open>\<^verbatim>\<open>self.metadata_tables[self.format_table_for_metadata(table_name)]\<close>.\<close>

definition target_table :: "backend \<Rightarrow> string \<Rightarrow> pyerror + table_obj" where
  "target_table be table_name =
     (case format_table_for_metadata table_name of
        None \<Rightarrow> Inl (KeyError ''None'')
      | Some formatted \<Rightarrow>
          (case be_table be formatted of
             None \<Rightarrow> Inl (KeyError formatted)
           | Some t \<Rightarrow> Inr t))"

text \<open>
  The coercion of values by column type. \<^verbatim>\<open>_conv_to_bool\<close> returns a bool as it is and
  otherwise compares \<^verbatim>\<open>val.lower()\<close> with \<^verbatim>\<open>"true"\<close>: that is a bool for a string, is
  \<^verbatim>\<open>False\<close> for bytes (bytes never equal a string) and raises \<^verbatim>\<open>AttributeError\<close> for
  every other value, which has no \<^verbatim>\<open>lower\<close>. \<open>coerce_method\<close> is the table
  \<^verbatim>\<open>_COERCE_METHODS\<close>.
\<close>

definition conv_to_bool :: "pyval \<Rightarrow> pyerror + pyval" where
  "conv_to_bool val =
     (case val of
        PyBool b \<Rightarrow> Inr val
      | PyStr s \<Rightarrow> Inr (PyBool (lower s = ''true''))
      | PyBytes b \<Rightarrow> Inr (PyBool False)
      | _ \<Rightarrow> Inl (AttributeError ''object has no attribute lower''))"

definition process_result_value :: "backend \<Rightarrow> pyval \<Rightarrow> pyerror + pyval" where
  "process_result_value be val = (if val = PyNone then Inr val else Inr (PyStr (be_str be val)))"

definition coerce_method :: "backend \<Rightarrow> sqltype \<Rightarrow> (pyval \<Rightarrow> pyerror + pyval) option" where
  "coerce_method be ty =
     (case ty of
        JSON \<Rightarrow> Some (\<lambda>val. case val of PyStr s \<Rightarrow> Inr (PyStr (be_json_dumps be s)) | _ \<Rightarrow> Inr val)
      | BOOLEAN \<Rightarrow> Some conv_to_bool
      | BYTEA \<Rightarrow> Some (\<lambda>val. case val of PyStr s \<Rightarrow> Inr (PyBytes (be_encode_utf8 be s)) | _ \<Rightarrow> Inr val)
      | UUID \<Rightarrow> Some (process_result_value be)
      | OtherType \<Rightarrow> None)"

text \<open>
  \<^verbatim>\<open>columns\<close> of \<^verbatim>\<open>write\<close> when no \<^verbatim>\<open>table_schema\<close> is passed: the dict from the name of
  each column that is not always-identity to its type; and \<^verbatim>\<open>coerce\<close>, the dict from the
  names of the columns whose type has a coercion method to that method. With a
  \<^verbatim>\<open>table_schema\<close> the types are strings, none of which has a method.
\<close>

definition column_types :: "table_obj \<Rightarrow> (string \<times> sqltype) list" where
  "column_types t =
     foldl (\<lambda>d col. dict_set d (col_name col) (col_type col)) []
       (filter (\<lambda>col. \<not> identity_always col) (tbl_columns t))"

definition coerce_methods ::
    "backend \<Rightarrow> (string \<times> sqltype) list \<Rightarrow> (string \<times> (pyval \<Rightarrow> pyerror + pyval)) list" where
  "coerce_methods be columns =
     List.map_filter (\<lambda>(col, ty). map_option (\<lambda>f. (col, f)) (coerce_method be ty)) columns"

text \<open>The coercion loop: record by record, column by column, every value that is not
  \<^verbatim>\<open>None\<close> and whose column has a method is replaced; the first method that raises ends
  the loop. Without any method the loop is skipped.\<close>

fun coerce_record :: "(string \<times> (pyval \<Rightarrow> pyerror + pyval)) list \<Rightarrow> row \<Rightarrow> pyerror + row" where
  "coerce_record coerce [] = Inr []"
| "coerce_record coerce ((col, v) # rest) =
     (case (case map_of coerce col of
              Some f \<Rightarrow> if v \<noteq> PyNone then f v else Inr v
            | None \<Rightarrow> Inr v) of
        Inl e \<Rightarrow> Inl e
      | Inr v' \<Rightarrow>
          (case coerce_record coerce rest of
             Inl e \<Rightarrow> Inl e
           | Inr rest' \<Rightarrow> Inr ((col, v') # rest')))"

fun coerce_records :: "(string \<times> (pyval \<Rightarrow> pyerror + pyval)) list \<Rightarrow> row list \<Rightarrow> pyerror + row list" where
  "coerce_records coerce [] = Inr []"
| "coerce_records coerce (r # rs) =
     (case coerce_record coerce r of
        Inl e \<Rightarrow> Inl e
      | Inr r' \<Rightarrow>
          (case coerce_records coerce rs of
             Inl e \<Rightarrow> Inl e
           | Inr rs' \<Rightarrow> Inr (r' # rs')))"

definition coerce_data :: "(string \<times> (pyval \<Rightarrow> pyerror + pyval)) list \<Rightarrow> row list \<Rightarrow> pyerror + row list" where
  "coerce_data coerce data = (if coerce = [] then Inr data else coerce_records coerce data)"

text \<open>The lookup tuple of one record: \<^verbatim>\<open>r[k]\<close> for the upsert columns the record has.\<close>

definition upsert_val :: "key \<Rightarrow> row \<Rightarrow> pyval list" where
  "upsert_val cols r = List.map_filter (\<lambda>k. map_of r k) cols"

text \<open>
  The first part of \<^verbatim>\<open>upsert\<close>, from the guard on empty data to the point where it has
  chosen between MERGE and delete-then-insert. Its result is the decision: the session
  \<^verbatim>\<open>upsert\<close> works on, the lookup columns, the lookup tuples of the data and, for a
  MERGE, the merge columns resolved by \<^verbatim>\<open>get_merge_columns(table_name, data,
  ignore_identity=True)\<close>. Derived lookup columns and the lookup tuples pass through a
  Python \<^verbatim>\<open>set\<close>. \<^verbatim>\<open>upsert\<close> below goes on from the decision.
\<close>

datatype strategy = NoData
  | MergeStrategy session key "pyval list list" key
  | DeleteThenInsertStrategy session key "pyval list list"

definition upsert_decision ::
    "backend \<Rightarrow> row list \<Rightarrow> string \<Rightarrow> key option \<Rightarrow> session option \<Rightarrow> connector \<Rightarrow> strategy result" where
  "upsert_decision be data table_name upsert_cols session c =
     (if data = [] then (Inr NoData, c)
      else
        (case (case upsert_cols of
                 None \<Rightarrow> bind_r (get_merge_columns be table_name None True)
                           (\<lambda>mc c'. (Inr (iter_set (be_order_names be) mc), c')) c
               | Some cols \<Rightarrow> (Inr cols, c)) of
           (Inl e, c1) \<Rightarrow> (Inl e, c1)
         | (Inr lookup, c1) \<Rightarrow>
             (case (case session of None \<Rightarrow> new_session c1 | Some s \<Rightarrow> (s, c1)) of
                (sess, c2) \<Rightarrow>
                  (case get_table_obj be table_name of
                     Inl e \<Rightarrow> (Inl e, c2)
                   | Inr table \<Rightarrow>
                       (case get_column_schema be table_name of
                          Inl e \<Rightarrow> (Inl e, c2)
                        | Inr table_cols \<Rightarrow>
                            if list_ex (\<lambda>cn. cn \<notin> set table_cols) lookup
                            then (Inl (ValueError ''The following upsert columns not present''), c2)
                            else
                              (case setup_fkey_relationships be False False False c2 of
                                 (Inl e, c3) \<Rightarrow> (Inl e, c3)
                               | (Inr _, c3) \<Rightarrow>
                                   (case (if has_dependent_tables c3 table_name
                                          then downstream_data_exists_for_cols be table_name lookup
                                                 (iter_set (be_order_tuples be) (map (upsert_val lookup) data)) c3
                                          else (Inr False, c3)) of
                                      (Inl e, c4) \<Rightarrow> (Inl e, c4)
                                    | (Inr True, c4) \<Rightarrow>
                                        (case get_merge_columns be table_name (Some data) True c4 of
                                           (Inl e, c5) \<Rightarrow> (Inl e, c5)
                                         | (Inr merge_cols, c5) \<Rightarrow>
                                             (Inr (MergeStrategy sess lookup
                                                     (iter_set (be_order_tuples be) (map (upsert_val lookup) data)) merge_cols), c5))
                                    | (Inr False, c4) \<Rightarrow>
                                        (Inr (DeleteThenInsertStrategy sess lookup
                                                (iter_set (be_order_tuples be) (map (upsert_val lookup) data))), c4))))))))"

text \<open>Termination of the mutual recursion below: the rank of a call of \<^verbatim>\<open>write\<close>.\<close>

definition write_rank :: "mode_arg \<Rightarrow> row list \<Rightarrow> nat" where
  "write_rank mode data =
     (if resolve_mode mode = Inr UPSERT then 6 else if 10000 < length data then 2 else 0)"

text \<open>
  \<^verbatim>\<open>write\<close> (here \<open>write_table\<close>, since \<open>write\<close> is a keyword of Isabelle),
  \<^verbatim>\<open>__write_in_chunks\<close>, \<^verbatim>\<open>upsert\<close>, \<^verbatim>\<open>merge_data\<close> and \<^verbatim>\<open>create_staging_table\<close>
  call each other. The data are records (a list of dicts). \<^verbatim>\<open>write\<close> cuts the records
  down to the columns of the table, coerces the values and only then looks at the number
  of records; every chunk goes through \<^verbatim>\<open>write\<close> again. \<^verbatim>\<open>__write_in_chunks\<close> carries its
  loop index \<open>n\<close> as last argument before the state.
\<close>

function
  write_table :: "backend \<Rightarrow> row list \<Rightarrow> string \<Rightarrow> mode_arg \<Rightarrow> session option \<Rightarrow> bool
             \<Rightarrow> string list option \<Rightarrow> key option \<Rightarrow> bool \<Rightarrow> connector \<Rightarrow> unit result"
and write_in_chunks :: "backend \<Rightarrow> row list \<Rightarrow> nat \<Rightarrow> string \<Rightarrow> WriteMode \<Rightarrow> session \<Rightarrow> nat
             \<Rightarrow> connector \<Rightarrow> unit result"
and upsert :: "backend \<Rightarrow> row list \<Rightarrow> string \<Rightarrow> key option \<Rightarrow> session option \<Rightarrow> bool
             \<Rightarrow> connector \<Rightarrow> unit result"
and merge_data :: "backend \<Rightarrow> row list \<Rightarrow> string \<Rightarrow> key option \<Rightarrow> (key \<times> pyval list list) option
             \<Rightarrow> session option \<Rightarrow> bool \<Rightarrow> connector \<Rightarrow> unit result"
and create_staging_table :: "backend \<Rightarrow> string \<Rightarrow> row list option \<Rightarrow> session option
             \<Rightarrow> connector \<Rightarrow> string result"
where
  "write_table be data table_name mode session do_explicit_cast table_schema upsert_cols do_commit c =
     (case table_exists be table_name None c of
        (Inl e, c1) \<Rightarrow> (Inl e, c1)
      | (Inr exists, c1) \<Rightarrow>
          (case resolve_mode mode of
             Inl e \<Rightarrow> (Inl e, c1)
           | Inr m \<Rightarrow>
               if \<not> exists
               then (Inl (ValueError ''table_name does not exist at current connection.''), c1)
               else if data = [] then (Inr (), c1)
               else if m = UPSERT then upsert be data table_name upsert_cols session do_commit c1
               else
                 (case (case session of None \<Rightarrow> new_session c1 | Some s \<Rightarrow> (s, c1)) of
                    (sess, c2) \<Rightarrow>
                      (case target_table be table_name of
                         Inl e \<Rightarrow> (Inl e, c2)
                       | Inr target_tbl \<Rightarrow>
                           (let columns =
                                  (if table_schema = None \<or> table_schema = Some []
                                   then map col_name (filter (\<lambda>col. \<not> identity_always col) (tbl_columns target_tbl))
                                   else the table_schema);
                                coerce =
                                  (if table_schema = None \<or> table_schema = Some []
                                   then coerce_methods be (column_types target_tbl)
                                   else []);
                                kept = map (filter (\<lambda>(col, v). col \<in> set columns)) data
                            in case (if m = OVERWRITE
                                     then bind_r (session_execute be sess (DeleteAll table_name))
                                            (\<lambda>_ c'. if ''id'' \<in> set columns
                                                     then session_execute be sess (SetvalId table_name) c'
                                                     else (Inr (), c'))
                                            c2
                                     else (Inr (), c2)) of
                                 (Inl e, c3) \<Rightarrow> (Inl e, c3)
                               | (Inr _, c3) \<Rightarrow>
                                   (case coerce_data coerce kept of
                                      Inl e \<Rightarrow> (Inl e, c3)
                                    | Inr coerced \<Rightarrow>
                                        if 10000 < length coerced
                                        then write_in_chunks be coerced 10000 table_name m sess 0 c3
                                        else
                                          bind_r (if m = IF_NOT_EXISTS
                                                  then bind_r (get_unique_constraint_columns be table_name)
                                                         (\<lambda>k c'. (Inr (Some k), c'))
                                                  else (\<lambda>c'. (Inr None, c')))
                                            (\<lambda>conflict.
                                               bind_r (session_execute be sess
                                                         (InsertRows table_name coerced do_explicit_cast conflict))
                                                 (\<lambda>_. finalize_transaction sess (session \<noteq> None) do_commit))
                                            c3))))))"
| "write_in_chunks be data chunk_size table_name mode sess n c =
     (if chunk_size = 0 then (Inl ZeroDivisionError, c)
      else if n < length data div chunk_size + 1 then
        (let chunk_elems = take chunk_size (drop (n * chunk_size) data) in
         if chunk_elems = []
         then write_in_chunks be data chunk_size table_name mode sess (Suc n) c
         else
           (case write_table be chunk_elems table_name (ModeEnum APPEND) (Some sess) False None None True c of
              (Inl e, c1) \<Rightarrow> (Inl e, c1)
            | (Inr _, c1) \<Rightarrow> write_in_chunks be data chunk_size table_name mode sess (Suc n) c1))
      else (Inr (), emit [Close sess] c))"
| "upsert be data table_name upsert_cols session do_commit c =
     (case upsert_decision be data table_name upsert_cols session c of
        (Inl e, c') \<Rightarrow> (Inl e, c')
      | (Inr NoData, c') \<Rightarrow> (Inr (), c')
      | (Inr (MergeStrategy sess lookup vals merge_cols), c5) \<Rightarrow>
          (case is_unique_constraint be table_name merge_cols of
             Inl e \<Rightarrow> (Inl e, c5)
           | Inr False \<Rightarrow>
               (Inl (ValueError ''Cannot upsert: is not used in a unique constraint and has dependent tables with values, therefore requiring a merge.''), c5)
           | Inr True \<Rightarrow>
               (case merge_data be data table_name (Some merge_cols) (Some (lookup, vals))
                       (Some sess) do_commit c5 of
                  (Inl e, c6) \<Rightarrow> (Inl e, c6)
                | (Inr _, c6) \<Rightarrow> finalize_transaction sess (session \<noteq> None) do_commit c6))
      | (Inr (DeleteThenInsertStrategy sess lookup vals), c4) \<Rightarrow>
          (case session_execute be sess (DeleteWhereIn table_name lookup vals) c4 of
             (Inl e, c5) \<Rightarrow> (Inl e, c5)
           | (Inr _, c5) \<Rightarrow>
               (case write_table be data table_name (ModeEnum APPEND) (Some sess)
                       False None None do_commit c5 of
                  (Inl e, c6) \<Rightarrow> (Inl e, c6)
                | (Inr _, c6) \<Rightarrow> finalize_transaction sess (session \<noteq> None) do_commit c6)))"
| "merge_data be data table_name merge_cols filter_values session do_commit c =
     (case create_staging_table be table_name (Some data) session c of
        (Inl e, c1) \<Rightarrow> (Inl e, c1)
      | (Inr staging_table_name, c1) \<Rightarrow>
          (case merge_tables be staging_table_name table_name merge_cols filter_values session do_commit c1 of
             (Inl e, c2) \<Rightarrow> (Inl e, c2)
           | (Inr _, c2) \<Rightarrow> drop_table be staging_table_name c2))"
| "create_staging_table be table_name data session c =
     (case execute be (DropTableIfExists (table_name @ ''_staging'')) session False c of
        (Inl e, c1) \<Rightarrow> (Inl e, c1)
      | (Inr _, c1) \<Rightarrow>
          (case execute be (CreateTableLike (table_name @ ''_staging'') table_name) session False c1 of
             (Inl e, c2) \<Rightarrow> (Inl e, c2)
           | (Inr _, c2) \<Rightarrow>
               (case data of
                  None \<Rightarrow> (Inr (table_name @ ''_staging''), c2)
                | Some d \<Rightarrow>
                    (case write_table be d (table_name @ ''_staging'') (ModeEnum OVERWRITE) None False None None False c2 of
                       (Inl e, c3) \<Rightarrow> (Inl e, c3)
                     | (Inr _, c3) \<Rightarrow> (Inr (table_name @ ''_staging''), c3)))))"
  by pat_completeness auto

termination
proof (relation "measures
    [\<lambda>x. case x of
        Inl (Inl (be, data, table_name, mode, rest)) \<Rightarrow> write_rank mode data
      | Inl (Inr (be, data, chunk_size, rest)) \<Rightarrow> (if chunk_size \<le> 10000 then 1 else 3)
      | Inr (Inl _) \<Rightarrow> 5
      | Inr (Inr (Inl _)) \<Rightarrow> 4
      | Inr (Inr (Inr _)) \<Rightarrow> 3,
     \<lambda>x. case x of
        Inl (Inr (be, data, chunk_size, table_name, mode, sess, n, c)) \<Rightarrow>
          length data div chunk_size + 1 - n
      | _ \<Rightarrow> 0]", goal_cases)
  case 1
  show ?case by simp
next
  case 2
  then show ?case by (simp add: write_rank_def)
next
  case 3
  have records: "length ys = length xs" if "coerce_records f xs = Inr ys"
    for f and xs ys :: "row list"
    using that by (induction xs arbitrary: ys) (auto split: sum.splits)
  have coerced: "length ys = length xs" if "coerce_data f xs = Inr ys"
    for f and xs ys :: "row list"
    using that records [of f xs ys] by (simp add: coerce_data_def split: if_splits)
  from 3 show ?case by (auto simp: write_rank_def dest!: coerced)
next
  case 4
  then show ?case by simp
next
  case 5
  then show ?case by (auto simp: write_rank_def resolve_mode_def)
next
  case 6
  then show ?case by simp
next
  case 7
  then show ?case by simp
next
  case 8
  then show ?case by (simp add: write_rank_def resolve_mode_def)
next
  case 9
  then show ?case by simp
next
  case 10
  then show ?case by (simp add: write_rank_def resolve_mode_def)
qed

declare write_table.simps [simp del] write_in_chunks.simps [simp del] upsert.simps [simp del]
  merge_data.simps [simp del] create_staging_table.simps [simp del]

section \<open>Example schemas\<close>

text \<open>A backend that rejects nothing, answers every SELECT with no rows and has an
  empty foreign-key catalog; and one whose catalog has the single foreign key
  \<open>public.child(parent_code) \<rightarrow> public.parent(code)\<close>.\<close>

definition empty_backend :: backend where
  "empty_backend = \<lparr> be_error = (\<lambda>_. None), be_nonempty = (\<lambda>_. False), be_fkeys = (\<lambda>_ _. []),
     be_table = (\<lambda>_. None), be_temp_schemas = [], be_full_temp_name = (\<lambda>_. None),
     be_random = (\<lambda>_. 0),
     be_json_dumps = (\<lambda>s. [CHR 0x22] @ s @ [CHR 0x22]), be_str = format_val,
     be_encode_utf8 = (\<lambda>s. s), be_order_names = remdups, be_order_tuples = remdups,
     be_order_keys = remdups \<rparr>"

definition parent_child_fk :: fk_row where
  "parent_child_fk = \<lparr> parent_table = ''public.parent'', parent_keys = [''code''],
     child_table = ''public.child'', child_keys = [''parent_code''] \<rparr>"

definition one_fk_backend :: backend where
  "one_fk_backend = empty_backend\<lparr> be_fkeys := (\<lambda>_ _. [parent_child_fk]) \<rparr>"

definition fresh_connector :: connector where
  "fresh_connector =
     \<lparr> dialect = POSTGRES, relationships = [], trace = [], next_session = 0, draws = 0 \<rparr>"

text \<open>Two tables that reference each other: \<open>s.a \<rightarrow> s.b \<rightarrow> s.a\<close>.\<close>

definition cyclic_relationships :: relationships where
  "cyclic_relationships =
     [(''s.a'', [(''s.b'', [([''id''], [[''a_id'']])])]),
      (''s.b'', [(''s.a'', [([''id''], [[''b_id'']])])])]"

definition cyclic_connector :: connector where
  "cyclic_connector = fresh_connector\<lparr> relationships := cyclic_relationships \<rparr>"

text \<open>The connector after building the graph once against the empty catalog, and after
  building it against the catalog with the one foreign key.\<close>

definition empty_built_connector :: connector where
  "empty_built_connector = fresh_connector\<lparr>
     trace := [Execute (Internal 0) (FkCatalogQuery False False), Close (Internal 0)],
     next_session := 1 \<rparr>"

definition built_connector :: connector where
  "built_connector = fresh_connector\<lparr>
     relationships := [(''public.parent'', [(''public.child'', [([''code''], [[''parent_code'']])])])],
     trace := [Execute (Internal 0) (FkCatalogQuery False False), Close (Internal 0)],
     next_session := 1 \<rparr>"

text \<open>
  A table \<open>public.t\<close> whose primary key \<open>id\<close> is an always-identity column, with a
  unique constraint on \<open>a\<close> and a wider one on \<open>(b, c)\<close>, in a backend that rejects
  nothing and has no foreign keys.
\<close>

definition wide_table :: table_obj where
  "wide_table = \<lparr> tbl_columns =
       [\<lparr>col_name = ''id'', col_identity = Some True, col_type = OtherType\<rparr>, \<lparr>col_name = ''a'', col_identity = None, col_type = OtherType\<rparr>,
        \<lparr>col_name = ''b'', col_identity = None, col_type = OtherType\<rparr>, \<lparr>col_name = ''c'', col_identity = None, col_type = OtherType\<rparr>],
     tbl_constraints =
       [PrimaryKeyConstraint [\<lparr>col_name = ''id'', col_identity = Some True, col_type = OtherType\<rparr>],
        UniqueConstraint [\<lparr>col_name = ''a'', col_identity = None, col_type = OtherType\<rparr>],
        UniqueConstraint [\<lparr>col_name = ''b'', col_identity = None, col_type = OtherType\<rparr>, \<lparr>col_name = ''c'', col_identity = None, col_type = OtherType\<rparr>]] \<rparr>"

definition wide_backend :: backend where
  "wide_backend = empty_backend\<lparr> be_table := (\<lambda>t. if t = ''public.t'' then Some wide_table else None) \<rparr>"

definition abc_record :: row where
  "abc_record = [(''a'', PyInt 1), (''b'', PyInt 2), (''c'', PyInt 3)]"

text \<open>
  The scenario of a parent and a child table: \<open>public.parent(id, code, extra)\<close> with
  primary key \<open>id\<close> and a unique constraint on \<open>code\<close>, and \<open>public.child\<close> whose
  \<open>parent_code\<close> references \<open>parent.code\<close> and which holds a row that references the
  parent row with code \<open>A\<close>. In \<open>parent_identity_table\<close> the column \<open>id\<close> is
  \<^verbatim>\<open>GENERATED ALWAYS AS IDENTITY\<close>, in \<open>parent_serial_table\<close> it has no identity. The
  existence probe finds the parent, the child and the staging table (and no temporary
  table yet); reflection finds the parent, the staging table and, once created, the
  temporary table \<open>pg_temp_3.parent_source_7\<close>; every draw of \<^verbatim>\<open>random\<close> is 6;
  \<open>rejected\<close> are the statements the database refuses.
\<close>

definition parent_identity_table :: table_obj where
  "parent_identity_table = \<lparr> tbl_columns =
       [\<lparr>col_name = ''id'', col_identity = Some True, col_type = OtherType\<rparr>, \<lparr>col_name = ''code'', col_identity = None, col_type = OtherType\<rparr>,
        \<lparr>col_name = ''extra'', col_identity = None, col_type = OtherType\<rparr>],
     tbl_constraints =
       [PrimaryKeyConstraint [\<lparr>col_name = ''id'', col_identity = Some True, col_type = OtherType\<rparr>],
        UniqueConstraint [\<lparr>col_name = ''code'', col_identity = None, col_type = OtherType\<rparr>]] \<rparr>"

definition parent_serial_table :: table_obj where
  "parent_serial_table = \<lparr> tbl_columns =
       [\<lparr>col_name = ''id'', col_identity = None, col_type = OtherType\<rparr>, \<lparr>col_name = ''code'', col_identity = None, col_type = OtherType\<rparr>,
        \<lparr>col_name = ''extra'', col_identity = None, col_type = OtherType\<rparr>],
     tbl_constraints =
       [PrimaryKeyConstraint [\<lparr>col_name = ''id'', col_identity = None, col_type = OtherType\<rparr>],
        UniqueConstraint [\<lparr>col_name = ''code'', col_identity = None, col_type = OtherType\<rparr>]] \<rparr>"

definition known_tables :: "string list" where
  "known_tables = [''public.parent'', ''public.child'', ''public.parent_staging'']"

definition parent_child_backend :: "table_obj \<Rightarrow> (stmt \<Rightarrow> bool) \<Rightarrow> backend" where
  "parent_child_backend parent rejected =
     \<lparr> be_error = (\<lambda>q. if rejected q then Some OtherDbError
                        else case q of
                               SelectTrueLimit1 t \<Rightarrow> if t \<in> set known_tables then None else Some UndefinedTable
                             | _ \<Rightarrow> None),
       be_nonempty = (\<lambda>q. case q of
                               SelectTrueLimit1 t \<Rightarrow> True
                             | DownstreamProbe p ch j l v \<Rightarrow> True
                             | _ \<Rightarrow> False),
       be_fkeys = (\<lambda>_ _. [parent_child_fk]),
       be_table = (\<lambda>t. if t = ''public.parent'' \<or> t = ''public.parent_staging''
                               \<or> t = ''pg_temp_3.parent_source_7''
                           then Some parent else None),
       be_temp_schemas = [''pg_temp_3''],
       be_full_temp_name = (\<lambda>n. Some (''pg_temp_3.'' @ n)),
       be_random = (\<lambda>_. 6),
       be_json_dumps = (\<lambda>s. [CHR 0x22] @ s @ [CHR 0x22]), be_str = format_val,
       be_encode_utf8 = (\<lambda>s. s), be_order_names = remdups, be_order_tuples = remdups,
       be_order_keys = remdups \<rparr>"

definition incoming_record :: row where
  "incoming_record = [(''code'', PyStr ''A''), (''extra'', PyStr ''v2'')]"

fun is_merge :: "stmt \<Rightarrow> bool" where
  "is_merge (MergeInto _ _ _ _ _) = True"
| "is_merge _ = False"

text \<open>The scenario with the always-identity parent on a database that refuses nothing,
  and on one that refuses every MERGE statement.\<close>

definition accepting_backend :: backend where
  "accepting_backend = parent_child_backend parent_identity_table (\<lambda>_. False)"

definition merge_rejecting_backend :: backend where
  "merge_rejecting_backend = parent_child_backend parent_identity_table is_merge"





section \<open>Notions used to state the properties\<close>

text \<open>The primary key of a reflected table (the columns of its first primary-key
  constraint, or none), whether \<^verbatim>\<open>get_merge_columns\<close> can use it, and the column
  names of the unique constraints that have no always-identity column.\<close>

definition primary_key_of :: "table_obj \<Rightarrow> column list" where
  "primary_key_of t = (case List.map_filter primary_key_columns (tbl_constraints t) of
                         [] \<Rightarrow> [] | cols # _ \<Rightarrow> cols)"

definition usable_primary_key :: "table_obj \<Rightarrow> bool" where
  "usable_primary_key t = (primary_key_of t \<noteq> [] \<and> \<not> list_ex identity_always (primary_key_of t))"

definition unique_keys :: "table_obj \<Rightarrow> key list" where
  "unique_keys t = map (map col_name)
     (filter (\<lambda>cols. \<not> list_ex identity_always cols)
        (List.map_filter unique_constraint_columns (tbl_constraints t)))"

text \<open>Among the unique constraints without always-identity column, those of the largest
  width that contain no identity column at all (always or by default).\<close>

definition widest_keys :: "table_obj \<Rightarrow> key list" where
  "widest_keys t =
     filter (\<lambda>k. length k = Max (set (map length (unique_keys t)))
                  \<and> \<not> list_ex (\<lambda>cn. cn \<in> set (map col_name
                          (filter (\<lambda>col. col_identity col \<noteq> None) (tbl_columns t)))) k)
       (unique_keys t)"

text \<open>A DELETE that selects the rows by the given set of columns.\<close>

fun deletes_by :: "string set \<Rightarrow> stmt \<Rightarrow> bool" where
  "deletes_by cols (DeleteWhereIn t lookup vals) = (set lookup = cols)"
| "deletes_by cols _ = False"

text \<open>The events of a trace that belong to one session, and the events an operation
  added to the trace.\<close>

fun event_session :: "event \<Rightarrow> session" where
  "event_session (Execute s _) = s"
| "event_session (Commit s) = s"
| "event_session (Close s) = s"
| "event_session (Rollback s) = s"

definition session_events :: "session \<Rightarrow> event list \<Rightarrow> event list" where
  "session_events s es = filter (\<lambda>e. event_session e = s) es"

definition new_events :: "connector \<Rightarrow> connector \<Rightarrow> event list" where
  "new_events c c' = drop (length (trace c)) (trace c')"

text \<open>A session the connector will not hand out again as a fresh one: any session of the
  caller, or an own session already opened.\<close>

fun session_known :: "connector \<Rightarrow> session \<Rightarrow> bool" where
  "session_known c (Supplied _) = True"
| "session_known c (Internal j) = (j < next_session c)"

text \<open>The columns \<^verbatim>\<open>write\<close> inserts into (all but the always-identity ones), and the
  records cut down to them.\<close>

definition writable_columns :: "table_obj \<Rightarrow> string list" where
  "writable_columns t = map col_name (filter (\<lambda>col. \<not> identity_always col) (tbl_columns t))"

definition keep_columns :: "string list \<Rightarrow> row list \<Rightarrow> row list" where
  "keep_columns cols data = map (filter (\<lambda>(col, v). col \<in> set cols)) data"

text \<open>A list split into consecutive chunks of \<open>n\<close> elements, the last one shorter if need
  be; and the events of writing chunks one by one, each insert followed by its commit.\<close>

function chunks_of :: "nat \<Rightarrow> 'a list \<Rightarrow> 'a list list" where
  "chunks_of n xs = (if n = 0 \<or> xs = [] then [] else take n xs # chunks_of n (drop n xs))"
  by pat_completeness auto
termination
  by (relation "measure (\<lambda>(n, xs). length xs)") auto

declare chunks_of.simps [simp del]

definition chunk_events :: "session \<Rightarrow> string \<Rightarrow> row list list \<Rightarrow> event list" where
  "chunk_events s t chunks =
     concat (map (\<lambda>ch. [Execute s (InsertRows t ch False None), Commit s]) chunks)"

text \<open>The probe of \<^verbatim>\<open>table_exists\<close> in a dialect.\<close>

definition exists_probe :: "SQLDialect \<Rightarrow> string \<Rightarrow> stmt" where
  "exists_probe d t = (if d = TSQL then SelectTop0 t else SelectTrueLimit1 t)"

text \<open>
  What \<^verbatim>\<open>write\<close> makes of the incoming records before it looks at their number: the
  records cut down to the columns (of \<^verbatim>\<open>table_schema\<close>, or the writable columns of the
  table) and coerced by column type (only without a \<^verbatim>\<open>table_schema\<close>); and what the
  \<^verbatim>\<open>write\<close> of one chunk, which passes no \<^verbatim>\<open>table_schema\<close>, makes of the records it is
  given. Either raises when a value is refused by its coercion method.
\<close>

definition first_pass :: "backend \<Rightarrow> table_obj \<Rightarrow> string list option \<Rightarrow> row list \<Rightarrow> pyerror + row list" where
  "first_pass be t table_schema data =
     (if table_schema = None \<or> table_schema = Some []
      then coerce_data (coerce_methods be (column_types t)) (keep_columns (writable_columns t) data)
      else coerce_data [] (keep_columns (the table_schema) data))"

definition chunk_pass :: "backend \<Rightarrow> table_obj \<Rightarrow> row list \<Rightarrow> pyerror + row list" where
  "chunk_pass be t data =
     coerce_data (coerce_methods be (column_types t)) (keep_columns (writable_columns t) data)"

text \<open>The session \<^verbatim>\<open>write\<close> works on: the caller's, or the one it opens itself right after
  the existence probe has used a session of its own.\<close>

definition write_session :: "connector \<Rightarrow> session option \<Rightarrow> session" where
  "write_session c session =
     (case session of None \<Rightarrow> Internal (Suc (next_session c)) | Some s \<Rightarrow> s)"

definition write_session_known :: "connector \<Rightarrow> session option \<Rightarrow> bool" where
  "write_session_known c session = (case session of None \<Rightarrow> True | Some s \<Rightarrow> session_known c s)"

text \<open>
  The kind of a statement, and a frame for what an operation adds to the trace: every
  new event is allowed (it executes no statement of a kind in \<open>bad\<close>, and neither commits
  nor rolls back the session numbered \<open>k\<close> of the caller), and, unless the operation
  raised, no new event closes that session. \<open>KClose\<close> is the kind of no statement: with
  \<open>KClose\<close> in \<open>bad\<close>, closing the caller's session is not allowed even when the operation
  raises.
\<close>

datatype kind = KSelect | KDropIfExists | KCreateLike | KCreateTemp | KDeleteAll | KSetval
  | KInsert | KDeleteWhere | KMerge | KDrop | KClose

fun stmt_kind :: "stmt \<Rightarrow> kind" where
  "stmt_kind (DropTableIfExists _) = KDropIfExists"
| "stmt_kind (CreateTableLike _ _) = KCreateLike"
| "stmt_kind (CreateTempTableAs _ _ _ _ _) = KCreateTemp"
| "stmt_kind (DeleteAll _) = KDeleteAll"
| "stmt_kind (SetvalId _) = KSetval"
| "stmt_kind (InsertRows _ _ _ _) = KInsert"
| "stmt_kind (DeleteWhereIn _ _ _) = KDeleteWhere"
| "stmt_kind (MergeInto _ _ _ _ _) = KMerge"
| "stmt_kind (DropTable _) = KDrop"
| "stmt_kind _ = KSelect"

fun allowed_event :: "nat \<Rightarrow> kind set \<Rightarrow> event \<Rightarrow> bool" where
  "allowed_event k bad (Execute s q) = (stmt_kind q \<notin> bad)"
| "allowed_event k bad (Commit s) = (s \<noteq> Supplied k)"
| "allowed_event k bad (Rollback s) = (s \<noteq> Supplied k)"
| "allowed_event k bad (Close s) = (s = Supplied k \<longrightarrow> KClose \<notin> bad)"

fun not_close :: "nat \<Rightarrow> event \<Rightarrow> bool" where
  "not_close k (Close s) = (s \<noteq> Supplied k)"
| "not_close k _ = True"

definition steps :: "nat \<Rightarrow> kind set \<Rightarrow> connector \<Rightarrow> 'a result \<Rightarrow> bool" where
  "steps k bad c rc =
     (\<exists>es. trace (snd rc) = trace c @ es \<and> list_all (allowed_event k bad) es
            \<and> (isl (fst rc) \<or> list_all (not_close k) es))"








text \<open>The statements executed by a list of events, in order and on whatever session.\<close>

definition statements :: "event list \<Rightarrow> stmt list" where
  "statements es = List.map_filter (\<lambda>e. case e of Execute s q \<Rightarrow> Some q | _ \<Rightarrow> None) es"

section \<open>Properties of the literal wrapper\<close>

lemma str_nat_digit: "n < 10 \<Longrightarrow> str_nat n = [digit_char n]"
  by (simp add: str_nat.simps)

lemma str_nat_step: "10 \<le> n \<Longrightarrow> str_nat n = str_nat (n div 10) @ [digit_char n]"
  by (subst str_nat.simps) simp

text \<open>
  C6. Wrapping without type information a datetime value: the claim expects the text
  \<open>YYYY-MM-DD HH:MM:SS\<close>. The source tests \<^verbatim>\<open>isinstance(val, date)\<close> before
  \<^verbatim>\<open>isinstance(val, datetime)\<close>, and a datetime is a date, so the datetime
  2024-01-02 03:04:05 is wrapped as the quoted date alone; the time of day is lost.
\<close>

theorem wrap_literal_datetime_loses_time:
  "wrap_literal (PyDateTime 2024 1 2 3 4 5) = Inr (CHR 0x27 # ''2024-01-02'' @ [CHR 0x27])"
  by code_simp

section \<open>Properties of the relationship graph\<close>

lemma execute_own_select:
  "be_error be q = None \<Longrightarrow> returns_rows q \<Longrightarrow>
   execute be q None False c =
     (Inr (), c\<lparr>trace := trace c @ [Execute (Internal (next_session c)) q, Close (Internal (next_session c))],
               next_session := Suc (next_session c)\<rparr>)"
  by (simp add: execute_def new_session_def emit_def)

lemma dict_set_not_Nil: "dict_set d k v \<noteq> []"
  by (induction d k v rule: dict_set.induct) auto

lemma add_relationship_not_Nil: "add_relationship rels r \<noteq> []"
  by (simp add: add_relationship_def Let_def dict_set_not_Nil)

lemma foldl_add_relationship_not_Nil: "rows \<noteq> [] \<Longrightarrow> foldl add_relationship rels rows \<noteq> []"
  by (induction rows rule: rev_induct) (simp_all add: add_relationship_not_Nil)

lemma convert_sets_to_lists_Nil [simp]: "convert_sets_to_lists be rels = [] \<longleftrightarrow> rels = []"
  by (simp add: convert_sets_to_lists_def)

lemma setup_fkey_relationships_builds:
  assumes "dialect c = POSTGRES" and "be_error be (FkCatalogQuery skip pk) = None"
    and "relationships c = [] \<or> overwrite"
  shows "setup_fkey_relationships be skip overwrite pk c =
     (Inr (), c\<lparr>relationships := convert_sets_to_lists be
                                   (foldl add_relationship [] (be_fkeys be skip pk)),
               trace := trace c @ [Execute (Internal (next_session c)) (FkCatalogQuery skip pk),
                                   Close (Internal (next_session c))],
               next_session := Suc (next_session c)\<rparr>)"
  using assms
  by (auto simp: setup_fkey_relationships_def bind_r_def read_def execute_def new_session_def emit_def Let_def)

text \<open>
  C8 (as amended). Once a build has left a graph with at least one relationship, a
  further call without the overwrite flag, whatever the backend and the other flags,
  returns at once: the graph is the same and the trace has no new query.
\<close>

theorem setup_fkey_relationships_cache_hit:
  assumes "setup_fkey_relationships be skip overwrite pk c = (Inr (), c1)"
    and "relationships c1 \<noteq> []"
  shows "setup_fkey_relationships be' skip' False pk' c1 = (Inr (), c1)"
  using assms(2) by (simp add: setup_fkey_relationships_def)

theorem setup_fkey_relationships_cache_hit_witness:
  "setup_fkey_relationships one_fk_backend False False False fresh_connector = (Inr (), built_connector)
   \<and> relationships built_connector \<noteq> []
   \<and> setup_fkey_relationships empty_backend True False True built_connector = (Inr (), built_connector)"
proof -
  have h1: "setup_fkey_relationships one_fk_backend False False False fresh_connector = (Inr (), built_connector)"
    by (simp add: setup_fkey_relationships_def bind_r_def read_def execute_def new_session_def emit_def
        Let_def one_fk_backend_def empty_backend_def fresh_connector_def built_connector_def
        add_relationship_def dict_get_or_def set_add_def parent_child_fk_def
        convert_sets_to_lists_def iter_set_def)
  have h2: "relationships built_connector \<noteq> []"
    by (simp add: built_connector_def)
  from setup_fkey_relationships_cache_hit [OF h1 h2] h1 h2 show ?thesis by simp
qed

text \<open>
  C8 as stated fails when the build found no relationship: the cache test takes the empty
  graph for "not built", so the next call without overwrite queries the catalog again,
  and returns a different edge set if the catalog has changed.
\<close>

theorem setup_fkey_relationships_empty_graph_requeries:
  "setup_fkey_relationships empty_backend False False False fresh_connector = (Inr (), empty_built_connector)
   \<and> setup_fkey_relationships empty_backend False False False empty_built_connector \<noteq> (Inr (), empty_built_connector)
   \<and> relationships (snd (setup_fkey_relationships one_fk_backend False False False empty_built_connector))
       \<noteq> relationships empty_built_connector"
  by (simp add: setup_fkey_relationships_def bind_r_def read_def execute_def new_session_def emit_def
        Let_def one_fk_backend_def empty_backend_def fresh_connector_def empty_built_connector_def
        add_relationship_def dict_get_or_def set_add_def parent_child_fk_def
        convert_sets_to_lists_def iter_set_def)

text \<open>
  C9. On the cyclic graph \<open>s.a \<rightarrow> s.b \<rightarrow> s.a\<close>, with any fuel: asking from a table that is
  no parent (\<open>s.c\<close>) raises \<^verbatim>\<open>TypeError\<close>, since \<^verbatim>\<open>get_foreign_keys\<close> returned \<^verbatim>\<open>None\<close>;
  asking for the child \<open>s.b\<close> of \<open>s.a\<close> by a column that does not link them ends the
  loops and returns \<^verbatim>\<open>None\<close>. Neither call returns \<^verbatim>\<open>False\<close>.
\<close>

theorem tables_are_linked_by_not_false:
  "tables_are_linked_by (Suc n) empty_backend ''s.c'' ''s.a'' (StrArg ''id'') [] cyclic_connector
     = Some (Inl (TypeError ''argument of type NoneType is not iterable''), [], cyclic_connector)
   \<and> tables_are_linked_by (Suc n) empty_backend ''s.a'' ''s.b'' (StrArg ''id'') [] cyclic_connector
     = Some (Inr None, [''s.b''], cyclic_connector)"
  by (simp add: get_foreign_keys_def setup_fkey_relationships_def cyclic_connector_def
      cyclic_relationships_def bind_r_def fresh_connector_def dict_keys_def dict_get_or_def set_add_def)

section \<open>Properties of the upsert key resolution and of empty writes\<close>


lemma get_merge_columns_no_data:
  assumes "be_table be t = Some tb"
  shows "get_merge_columns be t None True c =
     (if usable_primary_key tb then (Inr (map col_name (primary_key_of tb)), c)
      else if unique_keys tb = [] then (Inl (ValueError ''max() arg is an empty sequence''), c)
      else if widest_keys tb = [] then (Inr [], c)
      else (Inr (widest_keys tb ! (be_random be (draws c) mod length (widest_keys tb))),
            c\<lparr>draws := Suc (draws c)\<rparr>))"
proof -
  have "random_choice be (widest_keys tb) c
          = (Inr (widest_keys tb ! (be_random be (draws c) mod length (widest_keys tb))),
             c\<lparr>draws := Suc (draws c)\<rparr>)" if "widest_keys tb \<noteq> []"
    using that by (cases "widest_keys tb") (simp_all add: random_choice_def)
  then show ?thesis
    using assms
    by (simp add: get_merge_columns_def get_table_obj_def usable_primary_key_def primary_key_of_def
        unique_keys_def widest_keys_def Let_def)
qed

lemma upsert_decision_default_columns:
  assumes "data \<noteq> []"
  shows "upsert_decision be data t None session c =
     (case get_merge_columns be t None True c of
        (Inl e, c1) \<Rightarrow> (Inl e, c1)
      | (Inr cols, c1) \<Rightarrow>
          upsert_decision be data t (Some (iter_set (be_order_names be) cols)) session c1)"
  using assms by (simp add: upsert_decision_def bind_r_def split: prod.splits sum.splits)

lemma upsert_default_columns:
  assumes "data \<noteq> []"
  shows "upsert be data t None session do_commit c =
     (case get_merge_columns be t None True c of
        (Inl e, c1) \<Rightarrow> (Inl e, c1)
      | (Inr cols, c1) \<Rightarrow>
          upsert be data t (Some (iter_set (be_order_names be) cols)) session do_commit c1)"
proof (cases "get_merge_columns be t None True c")
  case (Pair r c1)
  then show ?thesis
    by (cases r) (simp_all add: upsert.simps upsert_decision_default_columns [OF assms])
qed

lemma write_table_upsert:
  assumes "data \<noteq> []" and "resolve_mode mode = Inr UPSERT"
    and "table_exists be t None c = (Inr True, c0)"
  shows "write_table be data t mode session cast schema upsert_cols do_commit c
           = upsert be data t upsert_cols session do_commit c0"
  using assms by (subst write_table.simps) simp

text \<open>
  C2 (as amended). \<^verbatim>\<open>write(mode=Upsert)\<close> on an existing table hands its records and its
  \<^verbatim>\<open>upsert_cols\<close> to \<^verbatim>\<open>upsert\<close>. When no upsert columns are supplied, \<^verbatim>\<open>upsert\<close> goes on
  as if it had been given the columns that \<^verbatim>\<open>get_merge_columns(table_name)\<close> returns (as
  a set, so in the order Python iterates over it), and raises what that call raises.
  The call returns the primary key when the table has one without always-identity
  column. Otherwise it looks at the unique constraints without always-identity column:
  with none it raises; else it takes those of the largest width that contain no identity
  column at all, returns the empty list if there are none, and one of them, picked by
  \<^verbatim>\<open>random.choice\<close>, if there are. The incoming records play no part.
\<close>

theorem upsert_resolves_primary_key_then_widest:
  assumes "be_table be t = Some tb"
  shows "get_merge_columns be t None True c =
           (if usable_primary_key tb then (Inr (map col_name (primary_key_of tb)), c)
            else if unique_keys tb = [] then (Inl (ValueError ''max() arg is an empty sequence''), c)
            else if widest_keys tb = [] then (Inr [], c)
            else (Inr (widest_keys tb ! (be_random be (draws c) mod length (widest_keys tb))),
                  c\<lparr>draws := Suc (draws c)\<rparr>))
       \<and> (data \<noteq> [] \<longrightarrow>
            upsert be data t None session do_commit c =
              (case get_merge_columns be t None True c of
                 (Inl e, c1) \<Rightarrow> (Inl e, c1)
               | (Inr cols, c1) \<Rightarrow>
                   upsert be data t (Some (iter_set (be_order_names be) cols)) session do_commit c1))
       \<and> (data \<noteq> [] \<and> resolve_mode mode = Inr UPSERT \<and> table_exists be t None c0 = (Inr True, c)
            \<longrightarrow> write_table be data t mode session cast schema None do_commit c0
                  = upsert be data t None session do_commit c)"
  using get_merge_columns_no_data [OF assms, of c] upsert_default_columns [of data be t session do_commit c]
    write_table_upsert [of data mode be t c0 c session cast schema None do_commit]
  by simp

theorem upsert_resolves_primary_key_then_widest_witness:
  "be_table wide_backend ''public.t'' = Some wide_table
   \<and> \<not> usable_primary_key wide_table
   \<and> unique_keys wide_table = [[''a''], [''b'', ''c'']]
   \<and> widest_keys wide_table = [[''b'', ''c'']]
   \<and> get_merge_columns wide_backend ''public.t'' None True fresh_connector
       = (Inr [''b'', ''c''], fresh_connector\<lparr>draws := 1\<rparr>)
   \<and> upsert wide_backend [abc_record] ''public.t'' None None False fresh_connector
       = upsert wide_backend [abc_record] ''public.t'' (Some [''b'', ''c'']) None False
           (fresh_connector\<lparr>draws := 1\<rparr>)"
proof -
  have h1: "be_table wide_backend ''public.t'' = Some wide_table"
    by (simp add: wide_backend_def empty_backend_def)
  have h2: "\<not> usable_primary_key wide_table"
    by (simp add: usable_primary_key_def primary_key_of_def wide_table_def List.map_filter_def
        identity_always_def)
  have h3: "unique_keys wide_table = [[''a''], [''b'', ''c'']]"
    by (simp add: unique_keys_def wide_table_def List.map_filter_def identity_always_def)
  have h4: "widest_keys wide_table = [[''b'', ''c'']]"
    unfolding widest_keys_def h3 by (auto simp: wide_table_def)
  have h5: "draws fresh_connector = 0" by (simp add: fresh_connector_def)
  have h6: "iter_set (be_order_names wide_backend) [''b'', ''c''] = [''b'', ''c'']"
    by (simp add: iter_set_def wide_backend_def empty_backend_def)
  have ne: "[abc_record] \<noteq> []" by simp
  note inst = upsert_resolves_primary_key_then_widest [OF h1, of fresh_connector "[abc_record]" None False]
  from inst [THEN conjunct1] h2 h3 h4 h5
  have g: "get_merge_columns wide_backend ''public.t'' None True fresh_connector
       = (Inr [''b'', ''c''], fresh_connector\<lparr>draws := 1\<rparr>)" by simp
  from inst [THEN conjunct2, THEN conjunct1] ne
  have "upsert wide_backend [abc_record] ''public.t'' None None False fresh_connector =
              (case get_merge_columns wide_backend ''public.t'' None True fresh_connector of
                 (Inl e, c1) \<Rightarrow> (Inl e, c1)
               | (Inr cols, c1) \<Rightarrow>
                   upsert wide_backend [abc_record] ''public.t''
                     (Some (iter_set (be_order_names wide_backend) cols)) None False c1)"
    by (rule mp)
  then have u: "upsert wide_backend [abc_record] ''public.t'' None None False fresh_connector
       = upsert wide_backend [abc_record] ''public.t'' (Some [''b'', ''c'']) None False
           (fresh_connector\<lparr>draws := 1\<rparr>)"
    unfolding g by (simp add: h6)
  from h1 h2 h3 h4 g u show ?thesis by (intro conjI)
qed

text \<open>
  C2 as stated fails on \<open>public.t\<close>: the narrowest unique constraint whose columns are all
  in the incoming record is \<open>(a)\<close>, but the resolution returns the wider \<open>(b, c)\<close>, and
  \<^verbatim>\<open>write(mode=Upsert)\<close> deletes by the columns \<open>b\<close> and \<open>c\<close>, not by \<open>a\<close>.
\<close>

theorem upsert_resolves_widest_not_narrowest:
  "get_merge_columns wide_backend ''public.t'' None True fresh_connector
       = (Inr [''b'', ''c''], fresh_connector\<lparr>draws := 1\<rparr>)
   \<and> [''a''] \<in> set (unique_keys wide_table)
   \<and> list_all (\<lambda>cn. cn \<in> set (dict_keys abc_record)) [''a'']
   \<and> list_ex (deletes_by {''b'', ''c''})
        (statements (new_events fresh_connector
           (snd (write_table wide_backend [abc_record] ''public.t'' (ModeEnum UPSERT) None
                   False None None False fresh_connector))))
   \<and> \<not> list_ex (deletes_by {''a''})
        (statements (new_events fresh_connector
           (snd (write_table wide_backend [abc_record] ''public.t'' (ModeEnum UPSERT) None
                   False None None False fresh_connector))))"
proof -
  have st: "statements (new_events fresh_connector
           (snd (write_table wide_backend [abc_record] ''public.t'' (ModeEnum UPSERT) None
                   False None None False fresh_connector)))
      = [SelectTrueLimit1 ''public.t'', FkCatalogQuery False False,
         DeleteWhereIn ''public.t'' [''b'', ''c''] [[PyInt 2, PyInt 3]],
         SelectTrueLimit1 ''public.t'',
         InsertRows ''public.t'' [abc_record] False None]"
    by code_simp
  have g: "get_merge_columns wide_backend ''public.t'' None True fresh_connector
       = (Inr [''b'', ''c''], fresh_connector\<lparr>draws := 1\<rparr>)"
    by (simp add: get_merge_columns_def get_table_obj_def wide_backend_def empty_backend_def
        wide_table_def List.map_filter_def identity_always_def random_choice_def Let_def
        fresh_connector_def)
  have a: "[''a''] \<in> set (unique_keys wide_table)"
    by (simp add: unique_keys_def wide_table_def List.map_filter_def identity_always_def)
  have b: "list_all (\<lambda>cn. cn \<in> set (dict_keys abc_record)) [''a'']"
    by (simp add: abc_record_def dict_keys_def)
  have d1: "list_ex (deletes_by {''b'', ''c''})
        (statements (new_events fresh_connector
           (snd (write_table wide_backend [abc_record] ''public.t'' (ModeEnum UPSERT) None
                   False None None False fresh_connector))))"
    unfolding st by simp
  have d2: "\<not> list_ex (deletes_by {''a''})
        (statements (new_events fresh_connector
           (snd (write_table wide_backend [abc_record] ''public.t'' (ModeEnum UPSERT) None
                   False None None False fresh_connector))))"
    unfolding st by auto
  from g a b d1 d2 show ?thesis by (intro conjI)
qed

text \<open>
  C7 (as amended). A \<^verbatim>\<open>write\<close> of an empty data set to an existing table with a valid
  mode returns normally: no error is raised, and the only statement executed is the
  existence probe of \<^verbatim>\<open>table_exists\<close>, on a session of its own. \<^verbatim>\<open>upsert\<close> called with
  no data returns at once and executes nothing.
\<close>

theorem write_empty_data_returns_silently:
  assumes "table_exists be t None c = (Inr True, c1)"
    and "resolve_mode mode = Inr m"
  shows "write_table be [] t mode session do_explicit_cast table_schema upsert_cols do_commit c = (Inr (), c1)
       \<and> upsert be [] t upsert_cols session do_commit c = (Inr (), c)
       \<and> trace c1 = trace c @ [Execute (Internal (next_session c))
                                   (if dialect c = TSQL then SelectTop0 t else SelectTrueLimit1 t),
                                 Close (Internal (next_session c))]"
proof -
  have "trace c1 = trace c @ [Execute (Internal (next_session c))
                                   (if dialect c = TSQL then SelectTop0 t else SelectTrueLimit1 t),
                                 Close (Internal (next_session c))]"
    using assms(1)
    by (auto simp: table_exists_def read_def execute_def new_session_def emit_def Let_def
        split: if_splits option.splits)
  then show ?thesis using assms
    by (simp add: write_table.simps upsert.simps upsert_decision_def)
qed

theorem write_empty_data_returns_silently_witness:
  "table_exists empty_backend ''public.parent'' None fresh_connector
      = (Inr True, fresh_connector\<lparr>trace := [Execute (Internal 0) (SelectTrueLimit1 ''public.parent''),
            Close (Internal 0)], next_session := 1\<rparr>)
   \<and> resolve_mode (ModeStr ''append'') = Inr APPEND
   \<and> write_table empty_backend [] ''public.parent'' (ModeStr ''append'') None False None None False fresh_connector
      = (Inr (), fresh_connector\<lparr>trace := [Execute (Internal 0) (SelectTrueLimit1 ''public.parent''),
            Close (Internal 0)], next_session := 1\<rparr>)"
proof -
  have h1: "table_exists empty_backend ''public.parent'' None fresh_connector
      = (Inr True, fresh_connector\<lparr>trace := [Execute (Internal 0) (SelectTrueLimit1 ''public.parent''),
            Close (Internal 0)], next_session := 1\<rparr>)"
    by (simp add: table_exists_def read_def execute_def new_session_def emit_def Let_def
        empty_backend_def fresh_connector_def)
  have h2: "resolve_mode (ModeStr ''append'') = Inr APPEND"
    by code_simp
  from write_empty_data_returns_silently [OF h1 h2] h1 h2 show ?thesis by simp
qed

text \<open>
  C7 as stated fails: writing no records to \<open>public.parent\<close> is not rejected, the call
  returns normally, and a statement (the existence probe) has been executed by then.
\<close>

theorem write_empty_data_is_no_error:
  "write_table empty_backend [] ''public.parent'' (ModeEnum APPEND) None False None None False fresh_connector
      = (Inr (), fresh_connector\<lparr>trace := [Execute (Internal 0) (SelectTrueLimit1 ''public.parent''),
            Close (Internal 0)], next_session := 1\<rparr>)"
  by (simp add: write_table.simps table_exists_def read_def execute_def new_session_def emit_def Let_def
        empty_backend_def fresh_connector_def resolve_mode_def)

section \<open>Properties of chunked writes\<close>

lemma chunks_of_Nil [simp]: "chunks_of n [] = []"
  by (simp add: chunks_of.simps)

lemma chunks_of_concat: "0 < n \<Longrightarrow> concat (chunks_of n xs) = xs"
  by (induction n xs rule: chunks_of.induct) (subst chunks_of.simps, simp)

lemma chunks_of_lengths: "list_all (\<lambda>ch. 0 < length ch \<and> length ch \<le> n) (chunks_of n xs)"
  by (induction n xs rule: chunks_of.induct) (subst chunks_of.simps, auto)

lemma chunks_of_slices:
  "0 < cs \<Longrightarrow> length xs \<le> m * cs \<Longrightarrow>
   filter (\<lambda>ch. ch \<noteq> []) (map (\<lambda>k. take cs (drop (k * cs) xs)) [0..<m]) = chunks_of cs xs"
proof (induction m arbitrary: xs)
  case 0
  then show ?case by simp
next
  case (Suc m)
  have split: "[0..<Suc m] = 0 # map Suc [0..<m]"
    by (simp add: upt_conv_Cons map_Suc_upt del: upt_Suc)
  show ?case
  proof (cases "xs = []")
    case True
    then show ?thesis by (simp add: filter_empty_conv)
  next
    case False
    from Suc.prems have "length (drop cs xs) \<le> m * cs" by simp
    with Suc.IH [of "drop cs xs"] Suc.prems(1)
    have ih: "filter (\<lambda>ch. ch \<noteq> []) (map (\<lambda>k. take cs (drop (k * cs) (drop cs xs))) [0..<m])
                = chunks_of cs (drop cs xs)" by simp
    have "map (\<lambda>k. take cs (drop (k * cs) xs)) [0..<Suc m]
            = take cs xs # map (\<lambda>k. take cs (drop (k * cs) (drop cs xs))) [0..<m]"
      unfolding split by (simp add: comp_def add.commute)
    moreover from False Suc.prems(1) have "take cs xs \<noteq> []" by simp
    ultimately show ?thesis
      using ih False Suc.prems(1) by (subst chunks_of.simps) simp
  qed
qed

lemma chunks_of_25000:
  assumes "length xs = 25000"
  shows "map length (chunks_of 10000 xs) = [10000, 10000, 5000]"
proof -
  have 1: "chunks_of 10000 xs = take 10000 xs # chunks_of 10000 (drop 10000 xs)"
    using assms by (subst chunks_of.simps) auto
  have 2: "chunks_of 10000 (drop 10000 xs)
            = take 10000 (drop 10000 xs) # chunks_of 10000 (drop 10000 (drop 10000 xs))"
    using assms by (subst chunks_of.simps) auto
  have 3: "chunks_of 10000 (drop 10000 (drop 10000 xs))
            = take 10000 (drop 10000 (drop 10000 xs)) # chunks_of 10000 (drop 10000 (drop 10000 (drop 10000 xs)))"
    using assms by (subst chunks_of.simps) auto
  have 4: "chunks_of 10000 (drop 10000 (drop 10000 (drop 10000 xs))) = []"
    using assms by (subst chunks_of.simps) auto
  show ?thesis unfolding 1 2 3 4 using assms by simp
qed

lemma table_exists_true:
  assumes "dialect c = POSTGRES \<or> dialect c = TSQL"
    and "be_error be (exists_probe (dialect c) t) = None"
  shows "table_exists be t None c =
     (Inr True, c\<lparr>trace := trace c @ [Execute (Internal (next_session c)) (exists_probe (dialect c) t),
                                       Close (Internal (next_session c))],
                  next_session := Suc (next_session c)\<rparr>)"
  using assms
  by (auto simp: table_exists_def exists_probe_def read_def execute_def new_session_def emit_def Let_def)

lemma coerce_records_length: "coerce_records f xs = Inr ys \<Longrightarrow> length ys = length xs"
  by (induction xs arbitrary: ys) (auto split: sum.splits)

lemma coerce_records_take:
  "coerce_records f xs = Inr ys \<Longrightarrow> coerce_records f (take n xs) = Inr (take n ys)"
proof (induction xs arbitrary: ys n)
  case Nil
  then show ?case by simp
next
  case (Cons x xs)
  then show ?case by (cases n) (auto split: sum.splits)
qed

lemma coerce_records_drop:
  "coerce_records f xs = Inr ys \<Longrightarrow> coerce_records f (drop n xs) = Inr (drop n ys)"
proof (induction xs arbitrary: ys n)
  case Nil
  then show ?case by simp
next
  case (Cons x xs)
  then show ?case by (cases n) (auto split: sum.splits)
qed

lemma coerce_data_length: "coerce_data f xs = Inr ys \<Longrightarrow> length ys = length xs"
  by (auto simp: coerce_data_def coerce_records_length split: if_splits)

lemma coerce_data_take_drop:
  "coerce_data f xs = Inr ys \<Longrightarrow> coerce_data f (take n (drop k xs)) = Inr (take n (drop k ys))"
  by (auto simp: coerce_data_def coerce_records_take coerce_records_drop split: if_splits)

lemma keep_columns_take_drop:
  "keep_columns cols (take n (drop k data)) = take n (drop k (keep_columns cols data))"
  by (simp add: keep_columns_def take_map drop_map)

lemma chunk_pass_length: "chunk_pass be tb xs = Inr ys \<Longrightarrow> length ys = length xs"
  using coerce_data_length [of _ "keep_columns (writable_columns tb) xs" ys]
  by (simp add: chunk_pass_def keep_columns_def)

lemma chunk_pass_take_drop:
  "chunk_pass be tb xs = Inr ys \<Longrightarrow> chunk_pass be tb (take n (drop k xs)) = Inr (take n (drop k ys))"
  by (simp add: chunk_pass_def keep_columns_take_drop coerce_data_take_drop)

lemma first_pass_length: "first_pass be tb schema xs = Inr ys \<Longrightarrow> length ys = length xs"
  by (auto simp: first_pass_def keep_columns_def dest!: coerce_data_length split: if_splits)

lemma write_append_chunk:
  assumes "dialect c = POSTGRES \<or> dialect c = TSQL"
    and "be_error be (exists_probe (dialect c) t) = None"
    and "target_table be t = Inr tb"
    and "data \<noteq> []" and "length data \<le> 10000"
    and "chunk_pass be tb data = Inr rows"
    and "be_error be (InsertRows t rows False None) = None"
  shows "write_table be data t (ModeEnum APPEND) (Some s) False None None True c =
     (Inr (), c\<lparr>trace := trace c @ [Execute (Internal (next_session c)) (exists_probe (dialect c) t),
                                     Close (Internal (next_session c)),
                                     Execute s (InsertRows t rows False None),
                                     Commit s],
                next_session := Suc (next_session c)\<rparr>)"
proof -
  from assms(6) have len: "length rows = length data" by (rule chunk_pass_length)
  from assms(6) have pass: "coerce_data (coerce_methods be (column_types tb))
      (map (filter (\<lambda>(col, v). col \<in> set (map col_name
               (filter (\<lambda>col. \<not> identity_always col) (tbl_columns tb))))) data) = Inr rows"
    by (simp add: chunk_pass_def keep_columns_def writable_columns_def)
  show ?thesis
    apply (subst write_table.simps)
    apply (simp only: table_exists_true [OF assms(1,2)] prod.case sum.case)
    using assms(3-5,7) len pass
    apply (simp add: resolve_mode_def bind_r_def session_execute_def finalize_transaction_def
        emit_def Let_def)
    done
qed

lemma session_events_append [simp]:
  "session_events s (xs @ ys) = session_events s xs @ session_events s ys"
  by (simp add: session_events_def)

lemma chunk_events_Cons [simp]:
  "chunk_events s t (ch # chs) = Execute s (InsertRows t ch False None) # Commit s # chunk_events s t chs"
  by (simp add: chunk_events_def)

lemma chunk_events_Nil [simp]: "chunk_events s t [] = []"
  by (simp add: chunk_events_def)

lemma session_known_fresh: "session_known c s \<Longrightarrow> s \<noteq> Internal (next_session c)"
  by (cases s) auto

lemma write_in_chunks_events:
  assumes "dialect c = POSTGRES \<or> dialect c = TSQL"
    and "be_error be (exists_probe (dialect c) t) = None"
    and "target_table be t = Inr tb"
    and "\<forall>rows. be_error be (InsertRows t rows False None) = None"
    and "chunk_pass be tb data = Inr rows"
    and "0 < cs" and "cs \<le> 10000" and "session_known c s"
  shows "\<exists>c' es. write_in_chunks be data cs t mode s n c = (Inr (), c')
           \<and> trace c' = trace c @ es
           \<and> session_events s es =
               chunk_events s t (filter (\<lambda>ch. ch \<noteq> [])
                   (map (\<lambda>k. take cs (drop (k * cs) rows)) [n..<length data div cs + 1])) @ [Close s]"
  using assms(1,2,8)
proof (induction "length data div cs + 1 - n" arbitrary: n c)
  case 0
  then have "\<not> n < length data div cs + 1" by simp
  with 0 assms(6) show ?case
    by (subst write_in_chunks.simps) (simp add: emit_def session_events_def)
next
  case (Suc k)
  then have lt: "n < length data div cs + 1" by simp
  then have upt: "[n..<length data div cs + 1] = n # [Suc n..<length data div cs + 1]"
    by (simp add: upt_conv_Cons)
  from Suc.hyps(2) have k: "k = length data div cs + 1 - Suc n" by simp
  let ?chunk = "take cs (drop (n * cs) data)"
  let ?rows = "take cs (drop (n * cs) rows)"
  have pass: "chunk_pass be tb ?chunk = Inr ?rows"
    using assms(5) by (rule chunk_pass_take_drop)
  then have same: "length ?rows = length ?chunk" by (rule chunk_pass_length)
  show ?case
  proof (cases "?chunk = []")
    case True
    then have empty: "?rows = []" using same by (metis length_0_conv)
    from Suc.hyps(1) [OF k Suc.prems]
    obtain c' es where r: "write_in_chunks be data cs t mode s (Suc n) c = (Inr (), c')"
      and tr: "trace c' = trace c @ es"
      and ev: "session_events s es = chunk_events s t (filter (\<lambda>ch. ch \<noteq> [])
                   (map (\<lambda>k. take cs (drop (k * cs) rows)) [Suc n..<length data div cs + 1])) @ [Close s]"
      by blast
    have "write_in_chunks be data cs t mode s n c = (Inr (), c')"
      using lt True assms(6) r by (subst write_in_chunks.simps) simp
    with tr ev empty show ?thesis unfolding upt by auto
  next
    case False
    then have nonempty: "?rows \<noteq> []" using same by (metis length_0_conv)
    have len: "length ?chunk \<le> 10000" using assms(7) by simp
    let ?c1 = "c\<lparr>trace := trace c @ [Execute (Internal (next_session c)) (exists_probe (dialect c) t),
                                     Close (Internal (next_session c)),
                                     Execute s (InsertRows t ?rows False None),
                                     Commit s],
                next_session := Suc (next_session c)\<rparr>"
    have ins: "be_error be (InsertRows t ?rows False None) = None" using assms(4) by simp
    have w: "write_table be ?chunk t (ModeEnum APPEND) (Some s) False None None True c = (Inr (), ?c1)"
      by (rule write_append_chunk [OF Suc.prems(1) Suc.prems(2) assms(3) False len pass ins])
    have known: "session_known ?c1 s" using Suc.prems(3) by (cases s) auto
    have d1: "dialect ?c1 = POSTGRES \<or> dialect ?c1 = TSQL" using Suc.prems(1) by simp
    have p1: "be_error be (exists_probe (dialect ?c1) t) = None" using Suc.prems(2) by simp
    from Suc.hyps(1) [OF k d1 p1 known]
    obtain c' es where r: "write_in_chunks be data cs t mode s (Suc n) ?c1 = (Inr (), c')"
      and tr: "trace c' = trace ?c1 @ es"
      and ev: "session_events s es = chunk_events s t (filter (\<lambda>ch. ch \<noteq> [])
                   (map (\<lambda>k. take cs (drop (k * cs) rows)) [Suc n..<length data div cs + 1])) @ [Close s]"
      by blast
    have res: "write_in_chunks be data cs t mode s n c = (Inr (), c')"
      using lt False assms(6) r w by (subst write_in_chunks.simps) simp
    from tr have tr': "trace c' = trace c @ ([Execute (Internal (next_session c)) (exists_probe (dialect c) t),
                                     Close (Internal (next_session c)),
                                     Execute s (InsertRows t ?rows False None),
                                     Commit s] @ es)" by simp
    have "session_events s ([Execute (Internal (next_session c)) (exists_probe (dialect c) t),
                                     Close (Internal (next_session c)),
                                     Execute s (InsertRows t ?rows False None),
                                     Commit s] @ es)
          = chunk_events s t (filter (\<lambda>ch. ch \<noteq> [])
                   (map (\<lambda>k. take cs (drop (k * cs) rows)) [n..<length data div cs + 1])) @ [Close s]"
      unfolding upt using ev nonempty session_known_fresh [OF Suc.prems(3)]
      by (simp add: session_events_def)
    with res tr' show ?thesis by blast
  qed
qed

lemma session_known_mono:
  "session_known c s \<Longrightarrow> next_session c \<le> next_session c' \<Longrightarrow> session_known c' s"
  by (cases s) auto

lemma le_div_succ_mult: "0 < m \<Longrightarrow> n \<le> (n div m + 1) * (m::nat)"
  using dividend_less_div_times [of m n] by simp

lemma write_table_chunked_events:
  assumes "dialect c = POSTGRES \<or> dialect c = TSQL"
    and "be_error be (exists_probe (dialect c) t) = None"
    and "target_table be t = Inr tb"
    and "\<forall>rows. be_error be (InsertRows t rows False None) = None"
    and "resolve_mode mode = Inr APPEND"
    and "10000 < length data"
    and "write_session_known c session"
    and "first_pass be tb table_schema data = Inr coerced"
    and "chunk_pass be tb coerced = Inr rows"
  shows "\<exists>c'. write_table be data t mode session do_explicit_cast table_schema upsert_cols do_commit c
             = (Inr (), c')
           \<and> session_events (write_session c session) (new_events c c') =
               chunk_events (write_session c session) t (chunks_of 10000 rows)
               @ [Close (write_session c session)]
           \<and> concat (chunks_of 10000 rows) = rows
           \<and> length rows = length data
           \<and> list_all (\<lambda>ch. 0 < length ch \<and> length ch \<le> 10000) (chunks_of 10000 rows)
           \<and> (length data = 25000 \<longrightarrow> map length (chunks_of 10000 rows) = [10000, 10000, 5000])"
proof -
  let ?s = "write_session c session"
  let ?c1 = "c\<lparr>trace := trace c @ [Execute (Internal (next_session c)) (exists_probe (dialect c) t),
                                     Close (Internal (next_session c))],
                next_session := Suc (next_session c)\<rparr>"
  let ?c2 = "case session of None \<Rightarrow> snd (new_session ?c1) | Some s \<Rightarrow> ?c1"
  have len1: "length coerced = length data" using assms(8) by (rule first_pass_length)
  have len2: "length rows = length coerced" using assms(9) by (rule chunk_pass_length)
  from assms(6) have ne: "data \<noteq> []" by auto
  have d2: "dialect ?c2 = POSTGRES \<or> dialect ?c2 = TSQL" and t2: "trace ?c2 = trace ?c1"
    and dd: "dialect ?c2 = dialect c"
    using assms(1) by (auto simp: new_session_def split: option.splits)
  have p2: "be_error be (exists_probe (dialect ?c2) t) = None" using assms(2) dd by simp
  have known: "session_known ?c2 ?s"
  proof (cases session)
    case None
    then show ?thesis by (simp add: write_session_def new_session_def)
  next
    case (Some s)
    with assms(7) have "session_known c s" by (simp add: write_session_known_def)
    then have "session_known ?c1 s" by (rule session_known_mono) simp
    with Some show ?thesis by (simp add: write_session_def)
  qed
  have "\<exists>c' es. write_in_chunks be coerced 10000 t APPEND ?s 0 ?c2 = (Inr (), c')
           \<and> trace c' = trace ?c2 @ es
           \<and> session_events ?s es =
               chunk_events ?s t (filter (\<lambda>ch. ch \<noteq> [])
                   (map (\<lambda>k. take 10000 (drop (k * 10000) rows)) [0..<length coerced div 10000 + 1])) @ [Close ?s]"
    by (rule write_in_chunks_events [OF d2 p2 assms(3) assms(4) assms(9) _ _ known]) simp_all
  then obtain c' es where r: "write_in_chunks be coerced 10000 t APPEND ?s 0 ?c2 = (Inr (), c')"
    and tr: "trace c' = trace ?c2 @ es"
    and ev: "session_events ?s es = chunk_events ?s t (filter (\<lambda>ch. ch \<noteq> [])
                   (map (\<lambda>k. take 10000 (drop (k * 10000) rows)) [0..<length coerced div 10000 + 1])) @ [Close ?s]"
    by blast
  have slices: "filter (\<lambda>ch. ch \<noteq> [])
                   (map (\<lambda>k. take 10000 (drop (k * 10000) rows)) [0..<length coerced div 10000 + 1])
                = chunks_of 10000 rows"
  proof (rule chunks_of_slices)
    show "0 < (10000::nat)" by simp
    have "length rows \<le> (length rows div 10000 + 1) * 10000"
      by (rule le_div_succ_mult) simp
    then show "length rows \<le> (length coerced div 10000 + 1) * 10000" using len2 by simp
  qed
  from assms(8) have pass: "coerce_data
        (if table_schema = None \<or> table_schema = Some [] then coerce_methods be (column_types tb) else [])
        (map (filter (\<lambda>(col, v). col \<in> set
                (if table_schema = None \<or> table_schema = Some []
                 then map col_name (filter (\<lambda>col. \<not> identity_always col) (tbl_columns tb))
                 else the table_schema))) data) = Inr coerced"
    by (auto simp: first_pass_def keep_columns_def writable_columns_def split: if_splits)
  have big: "10000 < length coerced" using len1 assms(6) by simp
  have w: "write_table be data t mode session do_explicit_cast table_schema upsert_cols do_commit c
             = (Inr (), c')"
  proof (cases session)
    case None
    show ?thesis
      apply (subst write_table.simps)
      apply (simp only: table_exists_true [OF assms(1,2)] prod.case sum.case)
      using assms(3,5) ne pass big r None
      apply (simp add: new_session_def write_session_def Let_def)
      done
  next
    case (Some s)
    show ?thesis
      apply (subst write_table.simps)
      apply (simp only: table_exists_true [OF assms(1,2)] prod.case sum.case)
      using assms(3,5) ne pass big r Some
      apply (simp add: new_session_def write_session_def Let_def)
      done
  qed
  have fresh: "?s \<noteq> Internal (next_session c)"
  proof (cases session)
    case None
    then show ?thesis by (simp add: write_session_def)
  next
    case (Some s)
    with assms(7) have "session_known c s" by (simp add: write_session_known_def)
    then have "s \<noteq> Internal (next_session c)" by (rule session_known_fresh)
    with Some show ?thesis by (simp add: write_session_def)
  qed
  have "new_events c c' = [Execute (Internal (next_session c)) (exists_probe (dialect c) t),
                           Close (Internal (next_session c))] @ es"
    using tr t2 by (simp add: new_events_def)
  then have "session_events ?s (new_events c c') = session_events ?s es"
    using fresh by (simp add: session_events_def)
  with ev slices have e: "session_events ?s (new_events c c') = chunk_events ?s t (chunks_of 10000 rows) @ [Close ?s]"
    by simp
  have lr: "length rows = length data" using len1 len2 by simp
  have c25: "length data = 25000 \<longrightarrow> map length (chunks_of 10000 rows) = [10000, 10000, 5000]"
    using chunks_of_25000 [of rows] lr by simp
  have cc: "concat (chunks_of 10000 rows) = rows" by (rule chunks_of_concat) simp
  have lens: "list_all (\<lambda>ch. 0 < length ch \<and> length ch \<le> 10000) (chunks_of 10000 rows)"
    by (rule chunks_of_lengths)
  show ?thesis by (intro exI [of _ c'] conjI w e cc lr lens c25)
qed

text \<open>
  C5. An Append of more than 10,000 records to an existing table, on a backend that
  accepts the inserts and with values that the coercion by column type accepts,
  succeeds, and on the session it works on (the caller's, or its own) it does exactly
  this: for each chunk of the records in order, one insert of that chunk followed by one
  commit, and a final close. The records inserted are the incoming ones after
  \<^verbatim>\<open>write\<close> has cut them down to the columns and coerced them, and after the \<^verbatim>\<open>write\<close> of
  the chunk has done so again; they are as many as came in. The chunks are consecutive
  slices of at most 10,000 records, none empty, that together are the whole batch; for
  25,000 records there are three, of 10,000, 10,000 and 5,000.
\<close>

theorem write_append_in_chunks:
  assumes "dialect c = POSTGRES \<or> dialect c = TSQL"
    and "be_error be (exists_probe (dialect c) t) = None"
    and "target_table be t = Inr tb"
    and "\<forall>rows. be_error be (InsertRows t rows False None) = None"
    and "resolve_mode mode = Inr APPEND"
    and "10000 < length data"
    and "write_session_known c session"
    and "first_pass be tb table_schema data = Inr coerced"
    and "chunk_pass be tb coerced = Inr rows"
  shows "\<exists>c'. write_table be data t mode session do_explicit_cast table_schema upsert_cols do_commit c
             = (Inr (), c')
           \<and> session_events (write_session c session) (new_events c c') =
               chunk_events (write_session c session) t (chunks_of 10000 rows)
               @ [Close (write_session c session)]
           \<and> concat (chunks_of 10000 rows) = rows
           \<and> length rows = length data
           \<and> list_all (\<lambda>ch. 0 < length ch \<and> length ch \<le> 10000) (chunks_of 10000 rows)
           \<and> (length data = 25000 \<longrightarrow> map length (chunks_of 10000 rows) = [10000, 10000, 5000])"
  using assms by (rule write_table_chunked_events)

theorem write_append_in_chunks_witness:
  "10000 < length (replicate 25000 abc_record)
   \<and> first_pass wide_backend wide_table None (replicate 25000 abc_record) = Inr (replicate 25000 abc_record)
   \<and> chunk_pass wide_backend wide_table (replicate 25000 abc_record) = Inr (replicate 25000 abc_record)
   \<and> (\<exists>c'. write_table wide_backend (replicate 25000 abc_record) ''public.t'' (ModeEnum APPEND)
              (Some (Supplied 0)) False None None False fresh_connector = (Inr (), c')
           \<and> session_events (Supplied 0) (new_events fresh_connector c') =
               chunk_events (Supplied 0) ''public.t'' (chunks_of 10000 (replicate 25000 abc_record))
               @ [Close (Supplied 0)])
   \<and> map length (chunks_of 10000 (replicate 25000 abc_record)) = [10000, 10000, 5000]"
proof -
  have h1: "dialect fresh_connector = POSTGRES \<or> dialect fresh_connector = TSQL"
    by (simp add: fresh_connector_def)
  have h2: "be_error wide_backend (exists_probe (dialect fresh_connector) ''public.t'') = None"
    by (simp add: wide_backend_def empty_backend_def)
  have h3: "target_table wide_backend ''public.t'' = Inr wide_table"
    by (simp add: target_table_def format_table_for_metadata_def count_dots_def lower_def
        lower_char_def wide_backend_def empty_backend_def)
  have h4: "\<forall>rows. be_error wide_backend (InsertRows ''public.t'' rows False None) = None"
    by (simp add: wide_backend_def empty_backend_def)
  have h5: "resolve_mode (ModeEnum APPEND) = Inr APPEND" by (simp add: resolve_mode_def)
  have h6: "10000 < length (replicate 25000 abc_record)" by simp
  have h7: "write_session_known fresh_connector (Some (Supplied 0))"
    by (simp add: write_session_known_def)
  have nocoerce: "coerce_methods wide_backend (column_types wide_table) = []"
    by (simp add: coerce_methods_def column_types_def wide_table_def identity_always_def
        coerce_method_def List.map_filter_def)
  have keep: "keep_columns (writable_columns wide_table) (replicate 25000 abc_record)
                = replicate 25000 abc_record"
    by (simp add: keep_columns_def writable_columns_def wide_table_def identity_always_def
        abc_record_def)
  have h8: "first_pass wide_backend wide_table None (replicate 25000 abc_record)
              = Inr (replicate 25000 abc_record)"
    using keep by (simp add: first_pass_def nocoerce coerce_data_def)
  have h9: "chunk_pass wide_backend wide_table (replicate 25000 abc_record)
              = Inr (replicate 25000 abc_record)"
    using keep by (simp add: chunk_pass_def nocoerce coerce_data_def)
  have h10: "length (replicate 25000 abc_record) = 25000" by simp
  have ws: "write_session fresh_connector (Some (Supplied 0)) = Supplied 0"
    by (simp add: write_session_def)
  from write_append_in_chunks [OF h1 h2 h3 h4 h5 h6 h7 h8 h9, of False None False]
  obtain c' where all:
    "write_table wide_backend (replicate 25000 abc_record) ''public.t'' (ModeEnum APPEND)
              (Some (Supplied 0)) False None None False fresh_connector = (Inr (), c')
     \<and> session_events (write_session fresh_connector (Some (Supplied 0))) (new_events fresh_connector c') =
               chunk_events (write_session fresh_connector (Some (Supplied 0))) ''public.t''
                 (chunks_of 10000 (replicate 25000 abc_record))
               @ [Close (write_session fresh_connector (Some (Supplied 0)))]
     \<and> concat (chunks_of 10000 (replicate 25000 abc_record)) = replicate 25000 abc_record
     \<and> length (replicate 25000 abc_record) = length (replicate 25000 abc_record)
     \<and> list_all (\<lambda>ch. 0 < length ch \<and> length ch \<le> 10000)
                 (chunks_of 10000 (replicate 25000 abc_record))
     \<and> (length (replicate 25000 abc_record) = 25000 \<longrightarrow>
             map length (chunks_of 10000 (replicate 25000 abc_record)) = [10000, 10000, 5000])" ..
  note a = all [THEN conjunct1]
  note b = all [THEN conjunct2, THEN conjunct1]
  note d = all [THEN conjunct2, THEN conjunct2, THEN conjunct2, THEN conjunct2, THEN conjunct2]
  from d h10 have d': "map length (chunks_of 10000 (replicate 25000 abc_record)) = [10000, 10000, 5000]"
    by (rule mp)
  from b have b': "session_events (Supplied 0) (new_events fresh_connector c') =
               chunk_events (Supplied 0) ''public.t'' (chunks_of 10000 (replicate 25000 abc_record))
               @ [Close (Supplied 0)]" unfolding ws .
  from a b' have "\<exists>c'. write_table wide_backend (replicate 25000 abc_record) ''public.t'' (ModeEnum APPEND)
              (Some (Supplied 0)) False None None False fresh_connector = (Inr (), c')
           \<and> session_events (Supplied 0) (new_events fresh_connector c') =
               chunk_events (Supplied 0) ''public.t'' (chunks_of 10000 (replicate 25000 abc_record))
               @ [Close (Supplied 0)]" by blast
  with h6 h8 h9 d' show ?thesis by (intro conjI)
qed

section \<open>What the operations add to the trace\<close>

lemma steps_return: "steps k bad c (r, c)"
  by (simp add: steps_def)

lemma steps_emit_ok:
  "list_all (allowed_event k bad) es \<Longrightarrow> list_all (not_close k) es \<Longrightarrow> steps k bad c (r, emit es c)"
  by (auto simp: steps_def emit_def)

lemma steps_emit_err:
  "list_all (allowed_event k bad) es \<Longrightarrow> steps k bad c (Inl e, emit es c)"
  by (auto simp: steps_def emit_def)

lemma steps_trans:
  assumes "steps k bad c (Inr x, c1)" and "steps k bad c1 rc"
  shows "steps k bad c rc"
proof -
  from assms(1) obtain es1 where 1: "trace c1 = trace c @ es1" "list_all (allowed_event k bad) es1"
      "list_all (not_close k) es1" by (auto simp: steps_def)
  from assms(2) obtain es2 where 2: "trace (snd rc) = trace c1 @ es2" "list_all (allowed_event k bad) es2"
      "isl (fst rc) \<or> list_all (not_close k) es2" by (auto simp: steps_def)
  from 1 2 have "trace (snd rc) = trace c @ (es1 @ es2)" by simp
  moreover from 1 2 have "list_all (allowed_event k bad) (es1 @ es2)" by simp
  moreover from 1 2 have "isl (fst rc) \<or> list_all (not_close k) (es1 @ es2)" by auto
  ultimately show ?thesis unfolding steps_def by blast
qed

lemma steps_err: "steps k bad c (Inl e, c1) \<Longrightarrow> steps k bad c (Inl e, c1)"
  by (auto simp: steps_def)

lemma steps_err_retype:
  fixes e :: pyerror
  assumes "steps k bad c ((Inl e, c1) :: 'a result)"
  shows "steps k bad c ((Inl e, c1) :: 'b result)"
  using assms by (auto simp: steps_def)

lemma steps_bind:
  assumes "steps k bad c (m c)"
    and "\<And>x c1. m c = (Inr x, c1) \<Longrightarrow> steps k bad c1 (f x c1)"
  shows "steps k bad c (bind_r m f c)"
proof (cases "m c")
  case (Pair r c1)
  show ?thesis
  proof (cases r)
    case (Inl e)
    with Pair assms(1) show ?thesis by (auto simp: bind_r_def steps_def)
  next
    case (Inr x)
    with Pair assms(1) have "steps k bad c (Inr x, c1)" by simp
    moreover from Pair Inr assms(2) have "steps k bad c1 (f x c1)" by simp
    ultimately have "steps k bad c (f x c1)" by (rule steps_trans)
    with Pair Inr show ?thesis by (simp add: bind_r_def)
  qed
qed

lemmas steps_case = steps_bind [unfolded bind_r_def]

lemma execute_steps:
  "stmt_kind q \<notin> bad \<Longrightarrow> KClose \<notin> bad \<or> sess \<noteq> Some (Supplied k)
   \<Longrightarrow> steps k bad c (execute be q sess rb c)"
  by (cases sess)
     (auto simp: execute_def steps_def emit_def new_session_def Let_def split: option.splits)

lemma read_steps:
  "stmt_kind q \<notin> bad \<Longrightarrow> KClose \<notin> bad \<or> sess \<noteq> Some (Supplied k)
   \<Longrightarrow> steps k bad c (read be q sess c)"
  by (simp add: read_def execute_steps)

lemma session_execute_steps:
  "stmt_kind q \<notin> bad \<Longrightarrow> steps k bad c (session_execute be s q c)"
  by (auto simp: session_execute_def steps_def emit_def split: option.splits)

lemma finalize_transaction_steps:
  "s = Supplied k \<longrightarrow> is_sub \<and> \<not> do_commit \<Longrightarrow> steps k bad c (finalize_transaction s is_sub do_commit c)"
  by (auto simp: finalize_transaction_def steps_def emit_def)

lemma table_exists_steps:
  assumes "KSelect \<notin> bad" and "sess \<noteq> Some (Supplied k)"
  shows "steps k bad c (table_exists be t sess c)"
  using assms
  by (cases sess)
     (auto simp: table_exists_def read_def execute_def steps_def emit_def new_session_def Let_def
           split: option.splits)



lemma random_choice_steps: "steps k bad c (random_choice be xs c)"
  by (cases xs) (auto simp: random_choice_def steps_def)

lemma random_randint_steps: "steps k bad c (random_randint be a b c)"
  by (auto simp: random_randint_def steps_def)

lemma get_merge_columns_steps: "steps k bad c (get_merge_columns be t data ign c)"
  by (auto simp: get_merge_columns_def Let_def steps_return random_choice_steps split: sum.splits)

lemma get_unique_constraint_columns_steps: "steps k bad c (get_unique_constraint_columns be t c)"
  by (auto simp: get_unique_constraint_columns_def Let_def steps_return random_choice_steps
      split: sum.splits list.splits)







lemma get_temp_schemas_steps:
  "KSelect \<notin> bad \<Longrightarrow> KClose \<notin> bad \<or> sess \<noteq> Some (Supplied k)
   \<Longrightarrow> steps k bad c (get_temp_schemas be sess c)"
  unfolding get_temp_schemas_def
  by (rule steps_bind) (simp_all add: read_steps steps_return)

lemma temp_name_loop_steps:
  assumes "KSelect \<notin> bad" and "mne \<or> sess \<noteq> Some (Supplied k)"
  shows "steps k bad c (temp_name_loop be base sess mne left tmp c)"
  using assms
proof (induction left arbitrary: tmp c)
  case 0
  show ?case
    apply (subst temp_name_loop.simps)
    apply (cases mne)
     apply (simp add: steps_return)
    apply simp
    apply (rule steps_case)
     apply (rule table_exists_steps)
    using 0 apply (auto simp: steps_return)
    done
next
  case (Suc left)
  show ?case
    apply (subst temp_name_loop.simps)
    apply (cases mne)
     apply (simp add: steps_return)
    apply simp
    apply (rule steps_case)
     apply (rule table_exists_steps)
    using Suc.prems apply (auto simp: steps_return intro!: steps_case random_randint_steps Suc.IH)
    done
qed

lemma get_random_temp_table_name_steps:
  assumes "KSelect \<notin> bad" and "mne \<or> sess \<noteq> Some (Supplied k)"
    and "KClose \<notin> bad \<or> sess \<noteq> Some (Supplied k)"
  shows "steps k bad c (get_random_temp_table_name be base sess mne c)"
  unfolding get_random_temp_table_name_def
  using assms
  by (auto intro!: steps_bind get_temp_schemas_steps random_choice_steps random_randint_steps
        temp_name_loop_steps steps_return split: option.splits)

lemma get_full_temp_table_name_steps:
  "KSelect \<notin> bad \<Longrightarrow> KClose \<notin> bad \<or> sess \<noteq> Some (Supplied k)
   \<Longrightarrow> steps k bad c (get_full_temp_table_name be tmp sess c)"
  unfolding get_full_temp_table_name_def
  by (rule steps_bind) (simp_all add: read_steps steps_return)

lemma create_temp_table_steps:
  assumes "KSelect \<notin> bad" and "KCreateTemp \<notin> bad"
    and "KClose \<notin> bad \<or> sess \<noteq> Some (Supplied k)"
  shows "steps k bad c (create_temp_table be src cols lk lits tmp sess c)"
  unfolding create_temp_table_def
  using assms
  by (auto intro!: steps_bind get_random_temp_table_name_steps execute_steps
        get_full_temp_table_name_steps steps_return split: list.splits)

lemma null_records_loop_steps:
  "KSelect \<notin> bad \<Longrightarrow> KClose \<notin> bad \<or> sess \<noteq> Some (Supplied k)
   \<Longrightarrow> steps k bad c (null_records_loop be t sess cols c)"
proof (induction cols arbitrary: c)
  case Nil
  show ?case by (simp add: steps_return)
next
  case (Cons col cols)
  show ?case
    unfolding null_records_loop.simps
    apply (rule steps_case)
     apply (rule read_steps)
    using Cons.prems apply simp
    using Cons.prems apply simp
    apply (rule steps_case)
     apply (rule Cons.IH [OF Cons.prems])
    apply (simp add: steps_return)
    done
qed

lemma get_columns_with_null_records_steps:
  "KSelect \<notin> bad \<Longrightarrow> KClose \<notin> bad \<or> sess \<noteq> Some (Supplied k)
   \<Longrightarrow> steps k bad c (get_columns_with_null_records be t sess c)"
  by (auto simp: get_columns_with_null_records_def steps_return null_records_loop_steps
      split: option.splits sum.splits)

lemma merge_tables_steps:
  assumes "KSelect \<notin> bad" and "KCreateTemp \<notin> bad" and "KMerge \<notin> bad \<or> merge_cols = Some []"
    and "session = Some (Supplied k) \<longrightarrow> \<not> do_commit \<and> KClose \<notin> bad"
  shows "steps k bad c (merge_tables be src tgt merge_cols fv session do_commit c)"
proof -
  obtain sess c0 where s: "(case session of None \<Rightarrow> new_session c | Some s \<Rightarrow> (s, c)) = (sess, c0)"
    by (cases "case session of None \<Rightarrow> new_session c | Some s \<Rightarrow> (s, c)")
  have tr: "trace c0 = trace c" using s by (auto simp: new_session_def split: option.splits)
  have fin: "sess = Supplied k \<longrightarrow> session \<noteq> None \<and> \<not> do_commit \<and> KClose \<notin> bad"
    using s assms(4) by (auto simp: new_session_def split: option.splits)
  have "steps k bad c0 (merge_tables be src tgt merge_cols fv session do_commit c)"
    unfolding merge_tables_def Let_def s prod.case
    using assms(1-3) fin
    by (auto intro!: steps_bind steps_return get_merge_columns_steps get_random_temp_table_name_steps
          create_temp_table_steps get_columns_with_null_records_steps session_execute_steps
          finalize_transaction_steps
          split: sum.splits option.splits prod.splits)
  then show ?thesis using tr by (simp add: steps_def)
qed

lemma steps_same_trace: "trace c2 = trace c1 \<Longrightarrow> steps k bad c2 rc \<Longrightarrow> steps k bad c1 rc"
  by (simp add: steps_def)

lemma steps_session:
  assumes "\<And>sess c2. sess = Supplied k \<longrightarrow> session = Some (Supplied k) \<Longrightarrow> trace c2 = trace c1
             \<Longrightarrow> steps k bad c2 (f sess c2)"
  shows "steps k bad c1 (case (case session of None \<Rightarrow> new_session c1 | Some s \<Rightarrow> (s, c1)) of
                           (sess, c2) \<Rightarrow> f sess c2)"
proof (cases session)
  case None
  have "steps k bad (snd (new_session c1)) (f (fst (new_session c1)) (snd (new_session c1)))"
    by (rule assms) (simp_all add: new_session_def)
  then have "steps k bad c1 (f (fst (new_session c1)) (snd (new_session c1)))"
    by (rule steps_same_trace [rotated]) (simp add: new_session_def)
  with None show ?thesis by (simp add: case_prod_beta)
next
  case (Some s)
  have "steps k bad c1 (f s c1)" by (rule assms) (simp_all add: Some)
  with Some show ?thesis by simp
qed

lemma steps_if:
  "(b \<Longrightarrow> steps k bad c x) \<Longrightarrow> (\<not> b \<Longrightarrow> steps k bad c y) \<Longrightarrow> steps k bad c (if b then x else y)"
  by simp

lemma steps_if_app:
  "(b \<Longrightarrow> steps k bad c (m c)) \<Longrightarrow> (\<not> b \<Longrightarrow> steps k bad c (n c))
   \<Longrightarrow> steps k bad c ((if b then m else n) c)"
  by simp

lemma steps_sum:
  "(\<And>e. x = Inl e \<Longrightarrow> steps k bad c (g e)) \<Longrightarrow> (\<And>v. x = Inr v \<Longrightarrow> steps k bad c (f v))
   \<Longrightarrow> steps k bad c (case x of Inl e \<Rightarrow> g e | Inr v \<Rightarrow> f v)"
  by (cases x) simp_all

lemma steps_option:
  "(x = None \<Longrightarrow> steps k bad c g) \<Longrightarrow> (\<And>v. x = Some v \<Longrightarrow> steps k bad c (f v))
   \<Longrightarrow> steps k bad c (case x of None \<Rightarrow> g | Some v \<Rightarrow> f v)"
  by (cases x) simp_all

lemma steps_bool:
  "(x \<Longrightarrow> steps k bad c g) \<Longrightarrow> (\<not> x \<Longrightarrow> steps k bad c f)
   \<Longrightarrow> steps k bad c (case x of True \<Rightarrow> g | False \<Rightarrow> f)"
  by (cases x) simp_all

lemmas steps_intros = steps_case steps_bind steps_if steps_if_app steps_sum steps_option steps_bool
  steps_session steps_return

lemma write_table_small_steps:
  assumes "KSelect \<notin> bad" and "KDeleteAll \<notin> bad" and "KSetval \<notin> bad" and "KInsert \<notin> bad"
    and "resolve_mode mode \<noteq> Inr UPSERT" and "length data \<le> 10000"
    and "session = Some (Supplied k) \<longrightarrow> \<not> do_commit"
  shows "steps k bad c (write_table be data t mode session cast schema ucols do_commit c)"
proof -
  show ?thesis
    apply (subst write_table.simps)
    apply (simp only: Let_def)
    apply (intro steps_intros table_exists_steps session_execute_steps
        get_unique_constraint_columns_steps finalize_transaction_steps)
    using assms apply (auto dest: coerce_data_length)
    done
qed


lemma write_in_chunks_steps:
  assumes "KSelect \<notin> bad" and "KDeleteAll \<notin> bad" and "KSetval \<notin> bad" and "KInsert \<notin> bad"
    and "cs \<le> 10000" and "s \<noteq> Supplied k"
  shows "steps k bad c (write_in_chunks be data cs t mode s n c)"
proof (induction "length data div cs + 1 - n" arbitrary: n c)
  case 0
  then show ?case
    apply (subst write_in_chunks.simps)
    using assms(6) apply (auto simp: steps_return intro!: steps_emit_ok)
    done
next
  case (Suc j)
  then have j: "j = length data div cs + 1 - Suc n" by simp
  have w: "\<And>c. take cs (drop (n * cs) data) \<noteq> [] \<Longrightarrow>
      steps k bad c (write_table be (take cs (drop (n * cs) data)) t (ModeEnum APPEND) (Some s)
                       False None None True c)"
    by (rule write_table_small_steps [OF assms(1-4)])
       (use assms(5,6) in \<open>simp_all add: resolve_mode_def\<close>)
  show ?case
    apply (subst write_in_chunks.simps)
    apply (simp only: Let_def)
    apply (intro steps_intros Suc.hyps(1) [OF j] w steps_emit_ok)
    using assms(6) apply simp_all
    done
qed

lemma write_table_plain_steps:
  assumes "KSelect \<notin> bad" and "KDeleteAll \<notin> bad" and "KSetval \<notin> bad" and "KInsert \<notin> bad"
    and "resolve_mode mode \<noteq> Inr UPSERT"
    and "session \<noteq> Some (Supplied k)"
  shows "steps k bad c (write_table be data t mode session cast schema ucols do_commit c)"
  apply (subst write_table.simps)
  apply (simp only: Let_def)
  apply (intro steps_intros table_exists_steps session_execute_steps write_in_chunks_steps
      get_unique_constraint_columns_steps finalize_transaction_steps)
  using assms apply simp_all
  done

lemma create_staging_table_steps:
  assumes "KSelect \<notin> bad" and "KDeleteAll \<notin> bad" and "KSetval \<notin> bad" and "KInsert \<notin> bad"
    and "KDropIfExists \<notin> bad" and "KCreateLike \<notin> bad"
    and "KClose \<notin> bad \<or> session \<noteq> Some (Supplied k)"
  shows "steps k bad c (create_staging_table be t data session c)"
  apply (subst create_staging_table.simps)
  apply (intro steps_intros execute_steps write_table_plain_steps)
  using assms apply (simp_all add: resolve_mode_def)
  done


section \<open>Properties of caller-supplied sessions\<close>




lemma steps_result: "steps k bad c (Inr x, c1) \<Longrightarrow> steps k bad c (Inr y, c1)"
  by (simp add: steps_def)









section \<open>Properties of the staging table\<close>

lemma statements_append: "statements (es @ fs) = statements es @ statements fs"
  by (simp add: statements_def List.map_filter_def)

lemma steps_no_kind:
  assumes "steps k bad c rc"
  shows "list_all (\<lambda>q. stmt_kind q \<notin> bad) (statements (new_events c (snd rc)))"
proof -
  from assms obtain es where es: "trace (snd rc) = trace c @ es" "list_all (allowed_event k bad) es"
    by (auto simp: steps_def)
  have n: "new_events c (snd rc) = es" using es(1) by (simp add: new_events_def)
  have "list_all (\<lambda>q. stmt_kind q \<notin> bad) (statements es)"
    using es(2)
  proof (induction es)
    case Nil
    then show ?case by (simp add: statements_def)
  next
    case (Cons e es)
    then show ?case by (cases e) (auto simp: statements_def)
  qed
  with n show ?thesis by simp
qed

lemma other_session: "\<exists>k. session \<noteq> Some (Supplied k)"
proof (cases session)
  case None
  then show ?thesis by simp
next
  case (Some s)
  show ?thesis
  proof (cases s)
    case (Supplied j)
    with Some have "session \<noteq> Some (Supplied (Suc j))" by simp
    then show ?thesis ..
  next
    case (Internal j)
    with Some show ?thesis by simp
  qed
qed

lemma create_staging_table_name:
  "create_staging_table be t data session c = (Inr stg, c1) \<Longrightarrow> stg = t @ ''_staging''"
  by (subst (asm) create_staging_table.simps) (auto split: prod.splits sum.splits option.splits)

lemma drop_table_statements:
  "statements (new_events c (snd (drop_table be t c))) = [DropTable t]"
  by (auto simp: drop_table_def execute_def new_session_def emit_def new_events_def
      statements_def Let_def split: option.splits)

text \<open>
C4 (as amended). Once \<^verbatim>\<open>merge_data\<close> has created the staging table
  \<open>t_staging\<close>: when the merge step returns, the staging table is dropped next, by the
  one statement \<^verbatim>\<open>drop table\<close> on a session of its own; when the merge step raises, the
  error propagates as it is and, from the start of \<^verbatim>\<open>merge_data\<close> to the error, no
  \<^verbatim>\<open>drop table\<close> statement has been executed.
\<close>

theorem merge_data_drops_staging_table_after_merge:
  assumes "create_staging_table be t (Some data) session c = (Inr stg, c1)"
    and "merge_tables be stg t mcols fv session do_commit c1 = (r, c2)"
  shows "stg = t @ ''_staging''
       \<and> (case r of
            Inr _ \<Rightarrow> merge_data be data t mcols fv session do_commit c = drop_table be stg c2
                     \<and> statements (new_events c2 (snd (drop_table be stg c2))) = [DropTable stg]
          | Inl e \<Rightarrow> merge_data be data t mcols fv session do_commit c = (Inl e, c2)
                     \<and> list_all (\<lambda>q. stmt_kind q \<noteq> KDrop) (statements (new_events c c2)))"
proof (intro conjI)
  show "stg = t @ ''_staging''" using assms(1) by (rule create_staging_table_name)
  show "case r of
            Inr _ \<Rightarrow> merge_data be data t mcols fv session do_commit c = drop_table be stg c2
                     \<and> statements (new_events c2 (snd (drop_table be stg c2))) = [DropTable stg]
          | Inl e \<Rightarrow> merge_data be data t mcols fv session do_commit c = (Inl e, c2)
                     \<and> list_all (\<lambda>q. stmt_kind q \<noteq> KDrop) (statements (new_events c c2))"
  proof (cases r)
    case (Inr u)
    with assms have "merge_data be data t mcols fv session do_commit c = drop_table be stg c2"
      by (subst merge_data.simps) simp
    with Inr show ?thesis by (simp add: drop_table_statements)
  next
    case (Inl e)
    with assms have m: "merge_data be data t mcols fv session do_commit c = (Inl e, c2)"
      by (subst merge_data.simps) simp
    obtain k where k: "session \<noteq> Some (Supplied k)" using other_session by blast
    have "steps k {KDrop} c (create_staging_table be t (Some data) session c)"
      by (rule create_staging_table_steps) simp_all
    then have 1: "steps k {KDrop} c (Inr stg, c1)" using assms(1) by simp
    have "steps k {KDrop} c1 (merge_tables be stg t mcols fv session do_commit c1)"
      by (rule merge_tables_steps) (use k in simp_all)
    then have "steps k {KDrop} c1 (r, c2)" using assms(2) by simp
    with 1 have "steps k {KDrop} c (r, c2)" by (rule steps_trans)
    then have "list_all (\<lambda>q. stmt_kind q \<notin> {KDrop}) (statements (new_events c (snd (r, c2))))"
      by (rule steps_no_kind)
    with m Inl show ?thesis by simp
  qed
qed

text \<open>
The parent and child scenario: on the database that accepts the MERGE the merge
  step returns and \<^verbatim>\<open>drop table public.parent_staging\<close> follows; on the one that
  refuses it \<^verbatim>\<open>merge_data\<close> raises the database error and has dropped nothing.
\<close>

theorem merge_data_drops_staging_table_after_merge_witness:
  "fst (merge_tables accepting_backend ''public.parent_staging'' ''public.parent''
          (Some [''code'']) (Some ([''code''], [[PyStr ''A'']])) (Some (Supplied 0)) False
          (snd (create_staging_table accepting_backend ''public.parent''
                  (Some [incoming_record]) (Some (Supplied 0)) built_connector))) = Inr ()
   \<and> statements (new_events
          (snd (merge_tables accepting_backend ''public.parent_staging'' ''public.parent''
                  (Some [''code'']) (Some ([''code''], [[PyStr ''A'']])) (Some (Supplied 0)) False
                  (snd (create_staging_table accepting_backend ''public.parent''
                          (Some [incoming_record]) (Some (Supplied 0)) built_connector))))
          (snd (merge_data accepting_backend [incoming_record] ''public.parent'' (Some [''code''])
                  (Some ([''code''], [[PyStr ''A'']])) (Some (Supplied 0)) False built_connector)))
       = [DropTable ''public.parent_staging'']
   \<and> fst (merge_data merge_rejecting_backend [incoming_record] ''public.parent'' (Some [''code''])
          (Some ([''code''], [[PyStr ''A'']])) (Some (Supplied 0)) False built_connector)
       = Inl (SQLAlchemyError OtherDbError)
   \<and> list_all (\<lambda>q. stmt_kind q \<noteq> KDrop)
        (statements (new_events built_connector
           (snd (merge_data merge_rejecting_backend [incoming_record] ''public.parent'' (Some [''code''])
                   (Some ([''code''], [[PyStr ''A'']])) (Some (Supplied 0)) False built_connector))))"
proof -
  let ?fv = "Some ([''code''], [[PyStr ''A'']])"
  let ?s = "Some (Supplied 0)"
  let ?S = "\<lambda>be. create_staging_table be ''public.parent'' (Some [incoming_record]) ?s built_connector"
  let ?M = "\<lambda>be. merge_tables be ''public.parent_staging'' ''public.parent'' (Some [''code'']) ?fv ?s
                    False (snd (?S be))"
  have eva: "(case create_staging_table accepting_backend ''public.parent'' (Some [incoming_record])
                     (Some (Supplied 0)) built_connector of
                (r1, c1) \<Rightarrow>
                  (r1, fst (merge_tables accepting_backend ''public.parent_staging'' ''public.parent''
                              (Some [''code'']) (Some ([''code''], [[PyStr ''A'']])) (Some (Supplied 0))
                              False c1)))
             = (Inr ''public.parent_staging'', Inr ())"
    by code_simp
  have evr: "(case create_staging_table merge_rejecting_backend ''public.parent'' (Some [incoming_record])
                     (Some (Supplied 0)) built_connector of
                (r1, c1) \<Rightarrow>
                  (r1, fst (merge_tables merge_rejecting_backend ''public.parent_staging'' ''public.parent''
                              (Some [''code'']) (Some ([''code''], [[PyStr ''A'']])) (Some (Supplied 0))
                              False c1)))
             = (Inr ''public.parent_staging'', Inl (SQLAlchemyError OtherDbError))"
    by code_simp
  have a1: "?S accepting_backend = (Inr ''public.parent_staging'', snd (?S accepting_backend))"
    using eva by (cases "?S accepting_backend") simp
  have a2: "?M accepting_backend = (Inr (), snd (?M accepting_backend))"
    using eva by (cases "?S accepting_backend") (simp add: prod_eq_iff)
  have r1: "?S merge_rejecting_backend
              = (Inr ''public.parent_staging'', snd (?S merge_rejecting_backend))"
    using evr by (cases "?S merge_rejecting_backend") simp
  have r2: "?M merge_rejecting_backend
              = (Inl (SQLAlchemyError OtherDbError), snd (?M merge_rejecting_backend))"
    using evr by (cases "?S merge_rejecting_backend") (simp add: prod_eq_iff)
  note A = merge_data_drops_staging_table_after_merge [OF a1 a2]
  note R = merge_data_drops_staging_table_after_merge [OF r1 r2]
  have A1: "fst (?M accepting_backend) = Inr ()" using a2 by (simp add: prod_eq_iff)
  have A2: "statements (new_events (snd (?M accepting_backend))
          (snd (merge_data accepting_backend [incoming_record] ''public.parent'' (Some [''code''])
                  ?fv ?s False built_connector)))
       = [DropTable ''public.parent_staging'']"
    using A by simp
  have R1: "fst (merge_data merge_rejecting_backend [incoming_record] ''public.parent'' (Some [''code''])
          ?fv ?s False built_connector) = Inl (SQLAlchemyError OtherDbError)"
    using R by simp
  have R2: "list_all (\<lambda>q. stmt_kind q \<noteq> KDrop)
        (statements (new_events built_connector
           (snd (merge_data merge_rejecting_backend [incoming_record] ''public.parent'' (Some [''code''])
                   ?fv ?s False built_connector))))"
    using R by simp
  from A1 A2 R1 R2 show ?thesis by (intro conjI)
qed

text \<open>
C4 as stated fails: an upsert that takes the merge path on a database that refuses
  the MERGE statement raises, having created \<open>public.parent_staging\<close> and never dropped
  it.
\<close>

theorem upsert_merge_failure_leaves_staging_table:
  "fst (upsert merge_rejecting_backend [incoming_record] ''public.parent'' (Some [''code''])
          (Some (Supplied 0)) False fresh_connector) = Inl (SQLAlchemyError OtherDbError)
   \<and> CreateTableLike ''public.parent_staging'' ''public.parent''
        \<in> set (statements (new_events fresh_connector
             (snd (upsert merge_rejecting_backend [incoming_record] ''public.parent'' (Some [''code''])
                     (Some (Supplied 0)) False fresh_connector))))
   \<and> DropTable ''public.parent_staging''
        \<notin> set (statements (new_events fresh_connector
             (snd (upsert merge_rejecting_backend [incoming_record] ''public.parent'' (Some [''code''])
                     (Some (Supplied 0)) False fresh_connector))))"
proof -
  have r: "fst (upsert merge_rejecting_backend [incoming_record] ''public.parent'' (Some [''code''])
          (Some (Supplied 0)) False fresh_connector) = Inl (SQLAlchemyError OtherDbError)"
    by code_simp
  have st: "statements (new_events fresh_connector
             (snd (upsert merge_rejecting_backend [incoming_record] ''public.parent'' (Some [''code''])
                     (Some (Supplied 0)) False fresh_connector)))
     = [FkCatalogQuery False False, SelectTrueLimit1 ''public.child'',
        DownstreamProbe ''public.parent'' ''public.child'' [(''code'', ''parent_code'')] [''code'']
          [[[CHR 0x27, CHR ''A'', CHR 0x27]]],
        DropTableIfExists ''public.parent_staging'',
        CreateTableLike ''public.parent_staging'' ''public.parent'',
        SelectTrueLimit1 ''public.parent_staging'',
        DeleteAll ''public.parent_staging'',
        InsertRows ''public.parent_staging'' [[(''code'', PyStr ''A''), (''extra'', PyStr ''v2'')]] False None,
        TempSchemasQuery, SelectTrueLimit1 ''pg_temp_3.parent_source_7'',
        CreateTempTableAs ''parent_source_7'' ''public.parent_staging'' [''code'', ''extra''] [''code'']
          [[[CHR 0x27, CHR ''A'', CHR 0x27]]],
        FullTempNameQuery ''parent_source_7'',
        NullProbe ''id'' ''pg_temp_3.parent_source_7'',
        NullProbe ''code'' ''pg_temp_3.parent_source_7'',
        NullProbe ''extra'' ''pg_temp_3.parent_source_7'',
        NullProbe ''id'' ''public.parent'', NullProbe ''code'' ''public.parent'',
        NullProbe ''extra'' ''public.parent'',
        MergeInto ''public.parent'' ''pg_temp_3.parent_source_7'' [(''code'', False)] [''extra'']
          [''code'', ''extra'']]"
    by code_simp
  show ?thesis unfolding st by (simp add: r)
qed

section \<open>Properties of the merge columns\<close>










end
